theory Spec2Isabelle
  imports Main "HOL-Library.Word"
begin

section \<open>The inter-node relay of the clustered broker (package cluster)\<close>

text \<open>
  A shallow embedding of the gRPC relay of the cluster package: the inbound handlers of
  \<open>RpcService\<close>, the connection pool of \<open>ClientManager\<close>, the four relay operations
  and their broadcast loops, and the start and stop of the RPC server.

  Go's \<open>uint8\<close> is \<open>8 word\<close>, \<open>uint32\<close> is \<open>32 word\<close>, \<open>int\<close> is \<open>64 word\<close> read
  with \<open>sint\<close>; a conversion \<open>uint8(x)\<close> or \<open>uint32(x)\<close> between unsigned types is
  \<open>ucast\<close>. A Go \<open>string\<close> is a \<open>string\<close>, a \<open>[]byte\<close> a list of bytes, an \<open>error\<close>
  is its message and \<open>nil\<close> is \<open>None\<close>.
\<close>

type_synonym byte = "8 word"
type_synonym uint32 = "32 word"
type_synonym goint = "64 word"
type_synonym error = string

subsection \<open>Messages and the wire schema\<close>

text \<open>
  \<open>message.Message\<close>, with the five fields the relay reads and writes. A field that a
  struct literal does not name has Go's zero value: the empty string, 0, the nil slice.
\<close>

record Message =
  Type :: byte
  NodeID :: string
  ClientID :: string
  ProtocolVersion :: byte
  Payload :: "byte list"

record PublishRequest =
  NodeId :: string
  ClientId :: string
  ProtocolVersion :: uint32
  Payload :: "byte list"

record ConnectRequest =
  NodeId :: string
  ClientId :: string

record ApplyRequest =
  Action :: uint32
  NodeId :: string
  Filter :: "byte list"

record JoinRequest =
  NodeId :: string
  Addr :: string
  Port :: uint32

record Response =
  Ok :: bool

text \<open>One unary call of the \<open>Relays\<close> service: the method and its request.\<close>

datatype rpc =
    PublishPacketRpc PublishRequest
  | ConnectNotifyRpc ConnectRequest
  | RaftApplyRpc ApplyRequest
  | RaftJoinRpc JoinRequest

subsection \<open>The standard library: \<open>strconv.Itoa\<close> and \<open>net.JoinHostPort\<close>\<close>

definition digit_char :: "nat \<Rightarrow> char" where
  "digit_char d = ''0123456789'' ! d"

function digits :: "nat \<Rightarrow> string" where
  "digits n = (if n < 10 then [digit_char n] else digits (n div 10) @ [digit_char (n mod 10)])"
  by pat_completeness auto
termination
  by (relation "measure id") auto

definition Itoa :: "goint \<Rightarrow> string" where
  "Itoa i = (if sint i < 0 then CHR ''-'' # digits (nat (- sint i)) else digits (nat (sint i)))"

text \<open>A host with a colon in it is taken for an IPv6 literal and bracketed.\<close>

definition JoinHostPort :: "string \<Rightarrow> string \<Rightarrow> string" where
  "JoinHostPort host port =
     (if CHR '':'' \<in> set host then ''['' @ host @ '']:'' @ port else host @ '':'' @ port)"

subsection \<open>The agent and the world around it\<close>

text \<open>
  A member of the cluster as the membership list reports it: its \<open>Name\<close> is the node id,
  the rest of the record is opaque to the relay.
\<close>

record Member =
  Name :: string
  Meta :: string

text \<open>
  What the relay reads from its agent and from the outside. None of it is defined in the
  files at hand, so each is a parameter:
  \<^item> \<open>BindAddr\<close>, \<open>GrpcPort\<close>, \<open>RaftPort\<close>: the fields of \<open>agent.Config\<close>;
  \<^item> \<open>LocalName\<close>: what \<open>agent.GetLocalName()\<close> returns;
  \<^item> \<open>Members t\<close>: what \<open>agent.membership.Members()\<close> returns when read at time \<open>t\<close>;
  \<^item> \<open>getNodeMember t nodeId\<close>: \<open>agent.getNodeMember(nodeId)\<close> at time \<open>t\<close>, \<open>None\<close> for nil;
  \<^item> \<open>getGrpcAddr\<close>: the projection of a member to its RPC address;
  \<^item> \<open>packets_Publish\<close>, \<open>packets_Connect\<close>, \<open>message_RaftJoin\<close>: the three byte constants
    \<open>packets.Publish\<close>, \<open>packets.Connect\<close> and \<open>message.RaftJoin\<close>;
  \<^item> \<open>net_Listen bound addr\<close>: the error of \<open>net.Listen("tcp", addr)\<close> when the
    addresses \<open>bound\<close> are already listened on, \<open>None\<close> when it succeeds;
  \<^item> \<open>grpc_DialContext t addr\<close>: the error of \<open>grpc.DialContext\<close> at time \<open>t\<close>, \<open>None\<close>
    when it returns a connection;
  \<^item> \<open>invoke t conn call\<close>: the error of the unary call \<open>call\<close> made on connection
    \<open>conn\<close> at time \<open>t\<close> (after the retries of the interceptor), \<open>None\<close> for a response.
  Time is a counter that advances at each read of the membership and at each dial and call,
  so that the outside may answer differently from one moment to the next.
\<close>

record env =
  BindAddr :: string
  GrpcPort :: goint
  RaftPort :: goint
  LocalName :: string
  Members :: "nat \<Rightarrow> Member list"
  getNodeMember :: "nat \<Rightarrow> string \<Rightarrow> Member option"
  getGrpcAddr :: "Member \<Rightarrow> string"
  packets_Publish :: byte
  packets_Connect :: byte
  message_RaftJoin :: byte
  net_Listen :: "string list \<Rightarrow> string \<Rightarrow> error option"
  grpc_DialContext :: "nat \<Rightarrow> string \<Rightarrow> error option"
  invoke :: "nat \<Rightarrow> nat \<Rightarrow> rpc \<Rightarrow> error option"

subsection \<open>The inbound handlers of \<open>RpcService\<close>\<close>

text \<open>
  The send \<open>s.agent.grpcMsgCh <- &msg\<close>. The sink is the list of the messages the channel
  has taken so far. A send on a Go channel completes when the buffer has room or a receiver
  waits, and blocks otherwise: \<open>ready\<close> says which, and \<open>None\<close> is a sender that
  stays blocked.
\<close>

definition chan_send :: "bool \<Rightarrow> Message list \<Rightarrow> Message \<Rightarrow> Message list option" where
  "chan_send ready ch msg = (if ready then Some (ch @ [msg]) else None)"

text \<open>
  A handler returns the new sink, the response and the error (\<open>None\<close> for nil); the whole
  result is \<open>None\<close> when the handler never gets past its send.
\<close>

type_synonym handler_result = "(Message list \<times> Response \<times> error option) option"

definition PublishPacket :: "env \<Rightarrow> bool \<Rightarrow> Message list \<Rightarrow> PublishRequest \<Rightarrow> handler_result" where
  "PublishPacket a ready ch req =
     (let msg = \<lparr>Type = packets_Publish a,
                 NodeID = PublishRequest.NodeId req,
                 ClientID = PublishRequest.ClientId req,
                 Message.ProtocolVersion = ucast (PublishRequest.ProtocolVersion req),
                 Message.Payload = PublishRequest.Payload req\<rparr>
      in case chan_send ready ch msg of
           None \<Rightarrow> None
         | Some ch' \<Rightarrow> Some (ch', \<lparr>Ok = True\<rparr>, None))"

definition ConnectNotify :: "env \<Rightarrow> bool \<Rightarrow> Message list \<Rightarrow> ConnectRequest \<Rightarrow> handler_result" where
  "ConnectNotify a ready ch req =
     (let msg = \<lparr>Type = packets_Connect a,
                 NodeID = ConnectRequest.NodeId req,
                 ClientID = ConnectRequest.ClientId req,
                 Message.ProtocolVersion = 0,
                 Message.Payload = []\<rparr>
      in case chan_send ready ch msg of
           None \<Rightarrow> None
         | Some ch' \<Rightarrow> Some (ch', \<lparr>Ok = True\<rparr>, None))"

definition RaftApply :: "env \<Rightarrow> bool \<Rightarrow> Message list \<Rightarrow> ApplyRequest \<Rightarrow> handler_result" where
  "RaftApply a ready ch req =
     (let msg = \<lparr>Type = ucast (Action req),
                 NodeID = ApplyRequest.NodeId req,
                 ClientID = [],
                 Message.ProtocolVersion = 0,
                 Message.Payload = Filter req\<rparr>
      in case chan_send ready ch msg of
           None \<Rightarrow> None
         | Some ch' \<Rightarrow> Some (ch', \<lparr>Ok = True\<rparr>, None))"

definition RaftJoin :: "env \<Rightarrow> bool \<Rightarrow> Message list \<Rightarrow> JoinRequest \<Rightarrow> handler_result" where
  "RaftJoin a ready ch req =
     (let addr = JoinHostPort (Addr req) (Itoa (ucast (Port req)));
          msg = \<lparr>Type = message_RaftJoin a,
                 NodeID = JoinRequest.NodeId req,
                 ClientID = [],
                 Message.ProtocolVersion = 0,
                 Message.Payload = map of_char addr\<rparr>
      in case chan_send ready ch msg of
           None \<Rightarrow> None
         | Some ch' \<Rightarrow> Some (ch', \<lparr>Ok = True\<rparr>, None))"

subsection \<open>The log\<close>

text \<open>
  What the relay writes to the log, in order. \<open>log_Error msg kvs\<close> is the call
  \<open>log.Error(msg, k1, v1, ...)\<close> with its key and value pairs. The helpers
  \<open>OnConnectPacketLog\<close>, \<open>OnApplyLog\<close> and \<open>OnJoinLog\<close> are called but not defined in the
  files at hand: each call is recorded with its arguments.
\<close>

datatype direction = DirectionInbound | DirectionOutbound

datatype logevent =
    log_Error string "(string \<times> string) list"
  | OnConnectPacketLog direction string string
  | OnApplyLog string string byte "byte list" string error
  | OnJoinLog string string string error

subsection \<open>The connection pool of \<open>ClientManager\<close>\<close>

text \<open>
  A \<open>client\<close> is a connection with the stub bound to it; a connection is known by its
  number, and the \<open>n\<close>-th successful dial makes connection \<open>n\<close>.
\<close>

record client =
  conn :: nat

text \<open>
  The state: \<open>cs\<close> is the map of the \<open>ClientManager\<close>; the rest is the world it acts on:
  the time, the number of connections made, the addresses dialed, the connections closed,
  the calls made (connection and request) and the log.
\<close>

record state =
  cs :: "string \<rightharpoonup> client"
  now :: nat
  nconn :: nat
  dials :: "string list"
  closed_conns :: "nat list"
  calls :: "(nat \<times> rpc) list"
  logged :: "logevent list"

definition NewClientManager :: state where
  "NewClientManager =
     \<lparr>cs = Map.empty, now = 0, nconn = 0, dials = [], closed_conns = [], calls = [], logged = []\<rparr>"

definition tick :: "state \<Rightarrow> state" where
  "tick s = s\<lparr>now := Suc (now s)\<rparr>"

definition RemoveGrpcClient :: "state \<Rightarrow> string \<Rightarrow> state" where
  "RemoveGrpcClient s nodeId =
     (case cs s nodeId of
        Some client \<Rightarrow> s\<lparr>cs := (cs s)(nodeId := None), closed_conns := closed_conns s @ [conn client]\<rparr>
      | None \<Rightarrow> s)"

definition getNodeAddr :: "env \<Rightarrow> nat \<Rightarrow> string \<Rightarrow> string \<times> error option" where
  "getNodeAddr a t nodeId =
     (case getNodeMember a t nodeId of
        None \<Rightarrow> ([], Some ''node not found'')
      | Some m \<Rightarrow> (getGrpcAddr a m, None))"

text \<open>
  \<open>getClient\<close> holds the mutex of the manager from entry to return; in a sequential run
  the lock is taken and released and nothing else shows.
\<close>

definition getClient :: "env \<Rightarrow> state \<Rightarrow> string \<Rightarrow> (error + client) \<times> state" where
  "getClient a s nodeId =
     (case cs s nodeId of
        Some sc \<Rightarrow> (Inr sc, s)
      | None \<Rightarrow>
          (let (addr, err) = getNodeAddr a (now s) nodeId;
               s1 = tick s
           in if addr = [] \<or> err \<noteq> None then (Inl ''node not found'', s1)
              else (case grpc_DialContext a (now s1) addr of
                      Some e \<Rightarrow>
                        (Inl (''dialing failed: '' @ e), (tick s1)\<lparr>dials := dials s1 @ [addr]\<rparr>)
                    | None \<Rightarrow>
                        (let wrapClient = \<lparr>conn = nconn s1\<rparr>
                         in (Inr wrapClient,
                             (tick s1)\<lparr>dials := dials s1 @ [addr],
                                       nconn := Suc (nconn s1),
                                       cs := (cs s1)(nodeId \<mapsto> wrapClient)\<rparr>)))))"

subsection \<open>The relay operations\<close>

text \<open>One unary call on the stub of a client: the call is recorded, its error returned.\<close>

definition unary_call :: "env \<Rightarrow> state \<Rightarrow> client \<Rightarrow> rpc \<Rightarrow> error option \<times> state" where
  "unary_call a s c r =
     (invoke a (now s) (conn c) r, (tick s)\<lparr>calls := calls s @ [(conn c, r)]\<rparr>)"

definition RelayPublishPacket :: "env \<Rightarrow> state \<Rightarrow> string \<Rightarrow> Message \<Rightarrow> state" where
  "RelayPublishPacket a s nodeId msg =
     (case getClient a s nodeId of
        (Inl err, s1) \<Rightarrow> s1\<lparr>logged := logged s1 @ [log_Error ''get grpc client'' [(''error'', err)]]\<rparr>
      | (Inr c, s1) \<Rightarrow>
          (let req = \<lparr>PublishRequest.NodeId = NodeID msg,
                      PublishRequest.ClientId = ClientID msg,
                      PublishRequest.ProtocolVersion = ucast (Message.ProtocolVersion msg),
                      PublishRequest.Payload = Message.Payload msg\<rparr>
           in case unary_call a s1 c (PublishPacketRpc req) of
                (Some err, s2) \<Rightarrow>
                  s2\<lparr>logged := logged s2 @
                        [log_Error ''relay publish packet''
                           [(''error'', err), (''to'', nodeId), (''cid'', ClientID msg)]]\<rparr>
              | (None, s2) \<Rightarrow> s2))"

definition ConnectNotifyToNode :: "env \<Rightarrow> state \<Rightarrow> string \<Rightarrow> string \<Rightarrow> state" where
  "ConnectNotifyToNode a s nodeId clientId =
     (case getClient a s nodeId of
        (Inl err, s1) \<Rightarrow> s1
      | (Inr c, s1) \<Rightarrow>
          (let req = \<lparr>ConnectRequest.NodeId = LocalName a,
                      ConnectRequest.ClientId = clientId\<rparr>;
               s2 = s1\<lparr>logged := logged s1 @ [OnConnectPacketLog DirectionOutbound nodeId clientId]\<rparr>
           in case unary_call a s2 c (ConnectNotifyRpc req) of
                (Some err, s3) \<Rightarrow>
                  s3\<lparr>logged := logged s3 @
                        [log_Error ''connection notification''
                           [(''error'', err), (''to'', nodeId), (''cid'', clientId)]]\<rparr>
              | (None, s3) \<Rightarrow> s3))"

definition RelayRaftApply :: "env \<Rightarrow> state \<Rightarrow> string \<Rightarrow> Message \<Rightarrow> state" where
  "RelayRaftApply a s nodeId msg =
     (case getClient a s nodeId of
        (Inl err, s1) \<Rightarrow> s1\<lparr>logged := logged s1 @ [log_Error ''get grpc client'' [(''error'', err)]]\<rparr>
      | (Inr c, s1) \<Rightarrow>
          (let req = \<lparr>Action = ucast (Type msg),
                      ApplyRequest.NodeId = NodeID msg,
                      Filter = Message.Payload msg\<rparr>
           in case unary_call a s1 c (RaftApplyRpc req) of
                (Some err, s2) \<Rightarrow>
                  s2\<lparr>logged := logged s2 @
                        [OnApplyLog nodeId (NodeID msg) (Type msg) (Message.Payload msg)
                           ''to leader do apply'' err]\<rparr>
              | (None, s2) \<Rightarrow> s2))"

definition RelayRaftJoin :: "env \<Rightarrow> state \<Rightarrow> string \<Rightarrow> state" where
  "RelayRaftJoin a s nodeId =
     (case getClient a s nodeId of
        (Inl err, s1) \<Rightarrow> s1\<lparr>logged := logged s1 @ [log_Error ''get grpc client'' [(''error'', err)]]\<rparr>
      | (Inr c, s1) \<Rightarrow>
          (let req = \<lparr>JoinRequest.NodeId = LocalName a,
                      Addr = BindAddr a,
                      Port = ucast (RaftPort a)\<rparr>
           in case unary_call a s1 c (RaftJoinRpc req) of
                (Some err, s2) \<Rightarrow>
                  (let addr = BindAddr a @ '':'' @ Itoa (RaftPort a)
                   in s2\<lparr>logged := logged s2 @ [OnJoinLog nodeId addr ''raft join'' err]\<rparr>)
              | (None, s2) \<Rightarrow> s2))"

subsection \<open>The broadcasts\<close>

text \<open>
  Each broadcast reads the membership once and ranges over that list; the body of the loop
  skips an entry by \<open>continue\<close> when its name is the local name.
\<close>

fun ConnectNotifyToOthers_loop :: "env \<Rightarrow> Message \<Rightarrow> Member list \<Rightarrow> state \<Rightarrow> state" where
  "ConnectNotifyToOthers_loop a msg [] s = s"
| "ConnectNotifyToOthers_loop a msg (m # ms) s =
     (if Name m = LocalName a then ConnectNotifyToOthers_loop a msg ms s
      else ConnectNotifyToOthers_loop a msg ms (ConnectNotifyToNode a s (Name m) (ClientID msg)))"

definition ConnectNotifyToOthers :: "env \<Rightarrow> state \<Rightarrow> Message \<Rightarrow> state" where
  "ConnectNotifyToOthers a s msg =
     (let ms = Members a (now s) in ConnectNotifyToOthers_loop a msg ms (tick s))"

fun RaftApplyToOthers_loop :: "env \<Rightarrow> Message \<Rightarrow> Member list \<Rightarrow> state \<Rightarrow> state" where
  "RaftApplyToOthers_loop a msg [] s = s"
| "RaftApplyToOthers_loop a msg (m # ms) s =
     (if Name m = LocalName a then RaftApplyToOthers_loop a msg ms s
      else RaftApplyToOthers_loop a msg ms (RelayRaftApply a s (Name m) msg))"

definition RaftApplyToOthers :: "env \<Rightarrow> state \<Rightarrow> Message \<Rightarrow> state" where
  "RaftApplyToOthers a s msg =
     (let ms = Members a (now s) in RaftApplyToOthers_loop a msg ms (tick s))"

fun RaftJoinToOthers_loop :: "env \<Rightarrow> Member list \<Rightarrow> state \<Rightarrow> state" where
  "RaftJoinToOthers_loop a [] s = s"
| "RaftJoinToOthers_loop a (m # ms) s =
     (if Name m = LocalName a then RaftJoinToOthers_loop a ms s
      else RaftJoinToOthers_loop a ms (RelayRaftJoin a s (Name m)))"

definition RaftJoinToOthers :: "env \<Rightarrow> state \<Rightarrow> state" where
  "RaftJoinToOthers a s =
     (let ms = Members a (now s) in RaftJoinToOthers_loop a ms (tick s))"

subsection \<open>Start and stop of the RPC server\<close>

text \<open>
  \<open>RpcService\<close> has the field \<open>grpcServer\<close>, a pointer that is nil (\<open>None\<close>) or names a
  server. The world of the server side: the addresses listened on, the number of servers
  made by \<open>grpc.NewServer\<close>, the servers the \<open>Relays\<close> service is registered with, the
  goroutines that serve (server and the address of its listener), the servers that
  \<open>GracefulStop\<close> was called on, and the log.
\<close>

record RpcService =
  grpcServer :: "nat option"

record server_world =
  bound :: "string list"
  nserver :: nat
  registered :: "nat list"
  serving :: "(nat \<times> string) list"
  stopped :: "nat list"
  server_logged :: "logevent list"

definition NewRpcService :: RpcService where
  "NewRpcService = \<lparr>grpcServer = None\<rparr>"

text \<open>The new server lives in a local variable of \<open>StartRpcServer\<close>; the receiver is not written.\<close>

definition StartRpcServer :: "env \<Rightarrow> RpcService \<Rightarrow> server_world \<Rightarrow> error option \<times> RpcService \<times> server_world" where
  "StartRpcServer a s w =
     (let addr = JoinHostPort (BindAddr a) (Itoa (GrpcPort a))
      in case net_Listen a (bound w) addr of
           Some err \<Rightarrow> (Some err, s, w)
         | None \<Rightarrow>
             (let new_server = nserver w
              in (None, s,
                  w\<lparr>bound := bound w @ [addr],
                    nserver := Suc (nserver w),
                    registered := registered w @ [new_server],
                    serving := serving w @ [(new_server, addr)]\<rparr>)))"

text \<open>
  The goroutine started by \<open>StartRpcServer\<close>, at the moment \<open>Serve\<close> returns with
  \<open>result\<close>: an error is logged and nothing else happens.
\<close>

definition serve_goroutine :: "server_world \<Rightarrow> error option \<Rightarrow> server_world" where
  "serve_goroutine w result =
     (case result of
        Some err \<Rightarrow> w\<lparr>server_logged := server_logged w @ [log_Error ''grpc server serve'' [(''error'', err)]]\<rparr>
      | None \<Rightarrow> w)"

text \<open>
  \<open>GracefulStop\<close> of the gRPC library on server \<open>g\<close>: the server is marked stopped, its
  serving ends and its listeners are released.
\<close>

definition GracefulStop :: "server_world \<Rightarrow> nat \<Rightarrow> server_world" where
  "GracefulStop w g =
     w\<lparr>stopped := stopped w @ [g],
       bound := filter (\<lambda>l. (g, l) \<notin> set (serving w)) (bound w),
       serving := filter (\<lambda>p. fst p \<noteq> g) (serving w)\<rparr>"

text \<open>The receiver of \<open>StopRpcServer\<close> is a pointer: \<open>None\<close> is the nil receiver.\<close>

definition StopRpcServer :: "RpcService option \<Rightarrow> server_world \<Rightarrow> server_world" where
  "StopRpcServer s w =
     (case s of
        None \<Rightarrow> w
      | Some s' \<Rightarrow>
          (case grpcServer s' of
             None \<Rightarrow> w
           | Some g \<Rightarrow> GracefulStop w g))"

subsection \<open>Histories of the pool and its invariant\<close>

text \<open>
  Connection numbers are handed out in order, so in a state the pool can reach every cached
  connection and every closed one has a number below \<open>nconn\<close>.
\<close>

definition pool_ok :: "state \<Rightarrow> bool" where
  "pool_ok s \<longleftrightarrow> (\<forall>c \<in> ran (cs s). conn c < nconn s) \<and> (\<forall>i \<in> set (closed_conns s). i < nconn s)"

text \<open>The calls a user of the \<open>ClientManager\<close> can make, and a sequence of them run in order.\<close>

datatype pool_op =
    Get string
  | Remove string
  | Publish string Message
  | Notify string string
  | Apply string Message
  | Join string
  | NotifyOthers Message
  | ApplyOthers Message
  | JoinOthers

fun run_op :: "env \<Rightarrow> state \<Rightarrow> pool_op \<Rightarrow> state" where
  "run_op a s (Get n) = snd (getClient a s n)"
| "run_op a s (Remove n) = RemoveGrpcClient s n"
| "run_op a s (Publish n msg) = RelayPublishPacket a s n msg"
| "run_op a s (Notify n clientId) = ConnectNotifyToNode a s n clientId"
| "run_op a s (Apply n msg) = RelayRaftApply a s n msg"
| "run_op a s (Join n) = RelayRaftJoin a s n"
| "run_op a s (NotifyOthers msg) = ConnectNotifyToOthers a s msg"
| "run_op a s (ApplyOthers msg) = RaftApplyToOthers a s msg"
| "run_op a s JoinOthers = RaftJoinToOthers a s"

definition run_ops :: "env \<Rightarrow> state \<Rightarrow> pool_op list \<Rightarrow> state" where
  "run_ops a s ops = foldl (run_op a) s ops"

text \<open>
  A node that the pool can get a client for at any moment: the directory has it, its
  address is not empty, and the dial that follows succeeds.
\<close>

definition acquirable :: "env \<Rightarrow> string \<Rightarrow> bool" where
  "acquirable a n \<longleftrightarrow>
     (\<forall>t. \<exists>m. getNodeMember a t n = Some m \<and> getGrpcAddr a m \<noteq> [] \<and>
               grpc_DialContext a (Suc t) (getGrpcAddr a m) = None)"

subsection \<open>Observations and a small cluster to run the definitions on\<close>

text \<open>The message a handler has put last on the sink, when it has returned.\<close>

definition delivered :: "handler_result \<Rightarrow> Message option" where
  "delivered r = (case r of None \<Rightarrow> None | Some (ch', resp, err) \<Rightarrow> Some (last ch'))"

text \<open>
  Three nodes \<open>A\<close>, \<open>B\<close> and \<open>C\<close>, seen from \<open>A\<close>; every listen, dial and call succeeds,
  except a listen on an address that is already bound.
\<close>

definition nodeA :: Member where
  "nodeA = \<lparr>Name = ''A'', Meta = ''10.0.0.1:17946''\<rparr>"

definition nodeB :: Member where
  "nodeB = \<lparr>Name = ''B'', Meta = ''10.0.0.2:17946''\<rparr>"

definition nodeC :: Member where
  "nodeC = \<lparr>Name = ''C'', Meta = ''10.0.0.3:17946''\<rparr>"

definition env0 :: env where
  "env0 =
     \<lparr>BindAddr = ''10.0.0.1'', GrpcPort = 17946, RaftPort = 8946, LocalName = ''A'',
      Members = (\<lambda>t. [nodeA, nodeB, nodeC]),
      getNodeMember = (\<lambda>t n. find (\<lambda>m. Name m = n) [nodeA, nodeB, nodeC]),
      getGrpcAddr = Meta,
      packets_Publish = 3, packets_Connect = 1, message_RaftJoin = 20,
      net_Listen = (\<lambda>bound addr. if addr \<in> set bound then Some ''address already in use'' else None),
      grpc_DialContext = (\<lambda>t addr. None),
      invoke = (\<lambda>t c r. None)\<rparr>"

text \<open>
  The same cluster with every call failing, and with a directory that loses all its
  records from time 2 on.
\<close>

definition env_down :: env where
  "env_down = env0\<lparr>invoke := (\<lambda>t c r. Some ''unavailable'')\<rparr>"

definition env_churn :: env where
  "env_churn =
     env0\<lparr>getNodeMember :=
            (\<lambda>t n. if t < 2 then find (\<lambda>m. Name m = n) [nodeA, nodeB, nodeC] else None)\<rparr>"

text \<open>The pool after one successful \<open>getClient\<close> for \<open>B\<close> on a new manager.\<close>

definition state_B :: state where
  "state_B = \<lparr>cs = [''B'' \<mapsto> \<lparr>conn = 0\<rparr>], now = 2, nconn = 1, dials = [''10.0.0.2:17946''],
              closed_conns = [], calls = [], logged = []\<rparr>"

text \<open>The server side before any start, and after one successful start.\<close>

definition world0 :: server_world where
  "world0 = \<lparr>bound = [], nserver = 0, registered = [], serving = [], stopped = [], server_logged = []\<rparr>"

definition world1 :: server_world where
  "world1 = \<lparr>bound = [''10.0.0.1:17946''], nserver = 1, registered = [0],
             serving = [(0, ''10.0.0.1:17946'')], stopped = [], server_logged = []\<rparr>"

text \<open>The cluster of the local node alone, and the empty membership.\<close>

definition env_solo :: env where
  "env_solo = env0\<lparr>Members := (\<lambda>t. [nodeA])\<rparr>"

definition env_empty :: env where
  "env_empty = env0\<lparr>Members := (\<lambda>t. [])\<rparr>"

definition msg0 :: Message where
  "msg0 = \<lparr>Type = 3, NodeID = ''A'', ClientID = ''c1'', Message.ProtocolVersion = 5,
           Message.Payload = [0xDE, 0xAD, 0xBE, 0xEF]\<rparr>"

definition publish_req0 :: PublishRequest where
  "publish_req0 = \<lparr>PublishRequest.NodeId = ''A'', PublishRequest.ClientId = ''c1'',
                   PublishRequest.ProtocolVersion = 5, PublishRequest.Payload = [0xDE, 0xAD]\<rparr>"

definition connect_req0 :: ConnectRequest where
  "connect_req0 = \<lparr>ConnectRequest.NodeId = ''A'', ConnectRequest.ClientId = ''c2''\<rparr>"

definition apply_req0 :: ApplyRequest where
  "apply_req0 = \<lparr>Action = 1, ApplyRequest.NodeId = ''A'', Filter = [1, 2]\<rparr>"

definition join_req0 :: JoinRequest where
  "join_req0 = \<lparr>JoinRequest.NodeId = ''D'', Addr = ''10.0.0.4'', Port = 8946\<rparr>"

section \<open>The inbound handlers\<close>

lemma narrow_mod_256: "unat (ucast (x :: uint32) :: byte) = unat x mod 256"
  by (simp add: unsigned_ucast_eq take_bit_eq_mod)

lemma narrow_eq_iff: "(ucast (x :: uint32) :: byte) = ucast (y :: uint32) \<longleftrightarrow> unat x mod 256 = unat y mod 256"
proof
  assume "(ucast x :: byte) = ucast y"
  then have "unat (ucast x :: byte) = unat (ucast y :: byte)" by simp
  then show "unat x mod 256 = unat y mod 256" by (simp only: narrow_mod_256)
next
  assume "unat x mod 256 = unat y mod 256"
  then have "unat (ucast x :: byte) = unat (ucast y :: byte)" by (simp only: narrow_mod_256)
  then show "(ucast x :: byte) = ucast y" by (simp only: word_unat_eq_iff)
qed

lemma widen_narrow_id: "(ucast (ucast (x :: byte) :: uint32) :: byte) = x"
  by (simp add: ucast_up_ucast_id is_up)

lemma PublishPacket_returns:
  "PublishPacket a ready ch req =
     (if ready then Some (ch @ [\<lparr>Type = packets_Publish a, NodeID = PublishRequest.NodeId req,
        ClientID = PublishRequest.ClientId req,
        Message.ProtocolVersion = ucast (PublishRequest.ProtocolVersion req),
        Message.Payload = PublishRequest.Payload req\<rparr>], \<lparr>Ok = True\<rparr>, None) else None)"
  by (simp add: PublishPacket_def chan_send_def)

lemma ConnectNotify_returns:
  "ConnectNotify a ready ch req =
     (if ready then Some (ch @ [\<lparr>Type = packets_Connect a, NodeID = ConnectRequest.NodeId req,
        ClientID = ConnectRequest.ClientId req,
        Message.ProtocolVersion = 0, Message.Payload = []\<rparr>], \<lparr>Ok = True\<rparr>, None) else None)"
  by (simp add: ConnectNotify_def chan_send_def)

lemma RaftApply_returns:
  "RaftApply a ready ch req =
     (if ready then Some (ch @ [\<lparr>Type = ucast (Action req), NodeID = ApplyRequest.NodeId req,
        ClientID = [], Message.ProtocolVersion = 0, Message.Payload = Filter req\<rparr>],
        \<lparr>Ok = True\<rparr>, None) else None)"
  by (simp add: RaftApply_def chan_send_def)

lemma RaftJoin_returns:
  "RaftJoin a ready ch req =
     (if ready then Some (ch @ [\<lparr>Type = message_RaftJoin a, NodeID = JoinRequest.NodeId req,
        ClientID = [], Message.ProtocolVersion = 0,
        Message.Payload = map of_char (JoinHostPort (Addr req) (Itoa (ucast (Port req))))\<rparr>],
        \<lparr>Ok = True\<rparr>, None) else None)"
  by (simp add: RaftJoin_def chan_send_def)

lemmas handler_returns = PublishPacket_returns ConnectNotify_returns RaftApply_returns RaftJoin_returns

lemma delivered_returns:
  "delivered (Some (ch @ [m], resp, err)) = Some m"
  by (simp add: delivered_def)

lemma ex0_handlers_return:
  "PublishPacket env0 True [] publish_req0 \<noteq> None"
  "ConnectNotify env0 True [] connect_req0 \<noteq> None"
  "RaftApply env0 True [] apply_req0 \<noteq> None"
  "RaftJoin env0 True [] join_req0 \<noteq> None"
  by (simp_all add: handler_returns)

text \<open>
  C8. Each of the four handlers, for every request: it returns as soon as the channel takes
  the message, and whenever it returns it has put exactly one message on the sink, its
  response is \<open>{ok: true}\<close> and its error is nil. A handler has no other way out: while the
  channel does not take the message it stays in its send.
\<close>

theorem handlers_deliver_one_then_ok:
  "(\<exists>m. PublishPacket a True ch preq = Some (ch @ [m], \<lparr>Ok = True\<rparr>, None)) \<and>
   (\<exists>m. ConnectNotify a True ch creq = Some (ch @ [m], \<lparr>Ok = True\<rparr>, None)) \<and>
   (\<exists>m. RaftApply a True ch areq = Some (ch @ [m], \<lparr>Ok = True\<rparr>, None)) \<and>
   (\<exists>m. RaftJoin a True ch jreq = Some (ch @ [m], \<lparr>Ok = True\<rparr>, None)) \<and>
   (\<forall>r. PublishPacket a ready ch preq = Some r \<longrightarrow> (\<exists>m. r = (ch @ [m], \<lparr>Ok = True\<rparr>, None))) \<and>
   (\<forall>r. ConnectNotify a ready ch creq = Some r \<longrightarrow> (\<exists>m. r = (ch @ [m], \<lparr>Ok = True\<rparr>, None))) \<and>
   (\<forall>r. RaftApply a ready ch areq = Some r \<longrightarrow> (\<exists>m. r = (ch @ [m], \<lparr>Ok = True\<rparr>, None))) \<and>
   (\<forall>r. RaftJoin a ready ch jreq = Some r \<longrightarrow> (\<exists>m. r = (ch @ [m], \<lparr>Ok = True\<rparr>, None)))"
proof (intro conjI)
  show "\<exists>m. PublishPacket a True ch preq = Some (ch @ [m], \<lparr>Ok = True\<rparr>, None)"
    by (simp add: PublishPacket_returns)
  show "\<exists>m. ConnectNotify a True ch creq = Some (ch @ [m], \<lparr>Ok = True\<rparr>, None)"
    by (simp add: ConnectNotify_returns)
  show "\<exists>m. RaftApply a True ch areq = Some (ch @ [m], \<lparr>Ok = True\<rparr>, None)"
    by (simp add: RaftApply_returns)
  show "\<exists>m. RaftJoin a True ch jreq = Some (ch @ [m], \<lparr>Ok = True\<rparr>, None)"
    by (simp add: RaftJoin_returns)
  show "\<forall>r. PublishPacket a ready ch preq = Some r \<longrightarrow> (\<exists>m. r = (ch @ [m], \<lparr>Ok = True\<rparr>, None))"
    by (cases ready) (simp_all add: PublishPacket_returns)
  show "\<forall>r. ConnectNotify a ready ch creq = Some r \<longrightarrow> (\<exists>m. r = (ch @ [m], \<lparr>Ok = True\<rparr>, None))"
    by (cases ready) (simp_all add: ConnectNotify_returns)
  show "\<forall>r. RaftApply a ready ch areq = Some r \<longrightarrow> (\<exists>m. r = (ch @ [m], \<lparr>Ok = True\<rparr>, None))"
    by (cases ready) (simp_all add: RaftApply_returns)
  show "\<forall>r. RaftJoin a ready ch jreq = Some r \<longrightarrow> (\<exists>m. r = (ch @ [m], \<lparr>Ok = True\<rparr>, None))"
    by (cases ready) (simp_all add: RaftJoin_returns)
qed

theorem handlers_deliver_one_then_ok_witness:
  "PublishPacket env0 True [] publish_req0 \<noteq> None \<and>
   ConnectNotify env0 True [] connect_req0 \<noteq> None \<and>
   RaftApply env0 True [] apply_req0 \<noteq> None \<and>
   RaftJoin env0 True [] join_req0 \<noteq> None \<and>
   (\<exists>m. the (PublishPacket env0 True [] publish_req0) = ([m], \<lparr>Ok = True\<rparr>, None)) \<and>
   (\<exists>m. the (ConnectNotify env0 True [] connect_req0) = ([m], \<lparr>Ok = True\<rparr>, None)) \<and>
   (\<exists>m. the (RaftApply env0 True [] apply_req0) = ([m], \<lparr>Ok = True\<rparr>, None)) \<and>
   (\<exists>m. the (RaftJoin env0 True [] join_req0) = ([m], \<lparr>Ok = True\<rparr>, None))"
  using handlers_deliver_one_then_ok [of env0 "[]" publish_req0 connect_req0 apply_req0 join_req0 True]
    ex0_handlers_return
  by fastforce

text \<open>
  C10. The handlers narrow the 32-bit wire fields to 8 bits modulo 256: the message that
  \<open>PublishPacket\<close> delivers has the protocol version of the request modulo 256, the message
  that \<open>RaftApply\<close> delivers has as its \<open>Type\<close> the action of the request modulo 256, and
  two requests that differ only in that field, by a multiple of 256, give the same result.
\<close>

theorem handlers_narrow_mod_256:
  "(\<exists>m. delivered (PublishPacket a True ch preq) = Some m \<and>
        unat (Message.ProtocolVersion m) = unat (PublishRequest.ProtocolVersion preq) mod 256) \<and>
   (\<exists>m. delivered (RaftApply a True ch areq) = Some m \<and>
        unat (Type m) = unat (Action areq) mod 256) \<and>
   (unat v mod 256 = unat v' mod 256 \<longrightarrow>
      PublishPacket a ready ch (preq\<lparr>PublishRequest.ProtocolVersion := v\<rparr>) =
      PublishPacket a ready ch (preq\<lparr>PublishRequest.ProtocolVersion := v'\<rparr>)) \<and>
   (unat w mod 256 = unat w' mod 256 \<longrightarrow>
      RaftApply a ready ch (areq\<lparr>Action := w\<rparr>) = RaftApply a ready ch (areq\<lparr>Action := w'\<rparr>))"
proof (intro conjI impI)
  show "\<exists>m. delivered (PublishPacket a True ch preq) = Some m \<and>
        unat (Message.ProtocolVersion m) = unat (PublishRequest.ProtocolVersion preq) mod 256"
    by (simp add: PublishPacket_returns delivered_returns narrow_mod_256)
  show "\<exists>m. delivered (RaftApply a True ch areq) = Some m \<and>
        unat (Type m) = unat (Action areq) mod 256"
    by (simp add: RaftApply_returns delivered_returns narrow_mod_256)
next
  assume "unat v mod 256 = unat v' mod 256"
  then have "(ucast v :: byte) = ucast v'" by (simp only: narrow_eq_iff)
  then show "PublishPacket a ready ch (preq\<lparr>PublishRequest.ProtocolVersion := v\<rparr>) =
      PublishPacket a ready ch (preq\<lparr>PublishRequest.ProtocolVersion := v'\<rparr>)"
    by (simp add: PublishPacket_returns)
next
  assume "unat w mod 256 = unat w' mod 256"
  then have "(ucast w :: byte) = ucast w'" by (simp only: narrow_eq_iff)
  then show "RaftApply a ready ch (areq\<lparr>Action := w\<rparr>) = RaftApply a ready ch (areq\<lparr>Action := w'\<rparr>)"
    by (simp add: RaftApply_returns)
qed

theorem handlers_narrow_mod_256_witness:
  "unat (5 :: uint32) mod 256 = unat (261 :: uint32) mod 256 \<and>
   unat (1 :: uint32) mod 256 = unat (513 :: uint32) mod 256 \<and>
   PublishPacket env0 True [] (publish_req0\<lparr>PublishRequest.ProtocolVersion := 5\<rparr>) =
   PublishPacket env0 True [] (publish_req0\<lparr>PublishRequest.ProtocolVersion := 261\<rparr>) \<and>
   RaftApply env0 True [] (apply_req0\<lparr>Action := 1\<rparr>) = RaftApply env0 True [] (apply_req0\<lparr>Action := 513\<rparr>)"
  using handlers_narrow_mod_256 [of env0 "[]" publish_req0 apply_req0 5 261 True 1 513]
  by simp

text \<open>
  Two \<open>RaftApply\<close> requests that differ in their action, 1 and 2, deliver messages of
  different \<open>Type\<close>: the kind of the message is not a function of the method alone.
\<close>

theorem RaftApply_kind_counterexample:
  "delivered (RaftApply env0 True [] (apply_req0\<lparr>Action := 1\<rparr>)) =
     Some \<lparr>Type = 1, NodeID = ''A'', ClientID = [], Message.ProtocolVersion = 0, Message.Payload = [1, 2]\<rparr> \<and>
   delivered (RaftApply env0 True [] (apply_req0\<lparr>Action := 2\<rparr>)) =
     Some \<lparr>Type = 2, NodeID = ''A'', ClientID = [], Message.ProtocolVersion = 0, Message.Payload = [1, 2]\<rparr> \<and>
   map_option Type (delivered (RaftApply env0 True [] (apply_req0\<lparr>Action := 1\<rparr>))) \<noteq>
   map_option Type (delivered (RaftApply env0 True [] (apply_req0\<lparr>Action := 2\<rparr>)))"
  by (simp add: RaftApply_returns delivered_def apply_req0_def)

text \<open>
  C2, as amended. For \<open>PublishPacket\<close>, \<open>ConnectNotify\<close> and \<open>RaftJoin\<close> the \<open>Type\<close> of the
  delivered message is the same for any two requests and any two sinks: it is the constant
  of the method. For \<open>RaftApply\<close> it is the action of the request narrowed to 8 bits, and
  depends on no other field.
\<close>

theorem kind_by_method_or_action:
  "map_option Type (delivered (PublishPacket a ready ch preq)) =
     map_option Type (delivered (PublishPacket a ready ch' preq')) \<and>
   map_option Type (delivered (ConnectNotify a ready ch creq)) =
     map_option Type (delivered (ConnectNotify a ready ch' creq')) \<and>
   map_option Type (delivered (RaftJoin a ready ch jreq)) =
     map_option Type (delivered (RaftJoin a ready ch' jreq')) \<and>
   map_option Type (delivered (PublishPacket a True ch preq)) = Some (packets_Publish a) \<and>
   map_option Type (delivered (ConnectNotify a True ch creq)) = Some (packets_Connect a) \<and>
   map_option Type (delivered (RaftJoin a True ch jreq)) = Some (message_RaftJoin a) \<and>
   map_option Type (delivered (RaftApply a True ch areq)) = Some (ucast (Action areq))"
proof (intro conjI)
  show "map_option Type (delivered (PublishPacket a ready ch preq)) =
     map_option Type (delivered (PublishPacket a ready ch' preq'))"
    by (cases ready) (simp_all add: PublishPacket_returns delivered_def)
  show "map_option Type (delivered (ConnectNotify a ready ch creq)) =
     map_option Type (delivered (ConnectNotify a ready ch' creq'))"
    by (cases ready) (simp_all add: ConnectNotify_returns delivered_def)
  show "map_option Type (delivered (RaftJoin a ready ch jreq)) =
     map_option Type (delivered (RaftJoin a ready ch' jreq'))"
    by (cases ready) (simp_all add: RaftJoin_returns delivered_def)
  show "map_option Type (delivered (PublishPacket a True ch preq)) = Some (packets_Publish a)"
    by (simp add: PublishPacket_returns delivered_returns)
  show "map_option Type (delivered (ConnectNotify a True ch creq)) = Some (packets_Connect a)"
    by (simp add: ConnectNotify_returns delivered_returns)
  show "map_option Type (delivered (RaftJoin a True ch jreq)) = Some (message_RaftJoin a)"
    by (simp add: RaftJoin_returns delivered_returns)
  show "map_option Type (delivered (RaftApply a True ch areq)) = Some (ucast (Action areq))"
    by (simp add: RaftApply_returns delivered_returns)
qed

section \<open>Start and stop of the server\<close>

lemma digits_17946: "digits 17946 = ''17946''"
  by (simp add: digit_char_def)

lemma Itoa_17946: "Itoa 17946 = ''17946''"
  by (simp add: Itoa_def digit_char_def)

lemma env0_listen_addr: "JoinHostPort (BindAddr env0) (Itoa (GrpcPort env0)) = ''10.0.0.1:17946''"
  by (simp add: env0_def JoinHostPort_def Itoa_17946)

lemma env0_start: "StartRpcServer env0 NewRpcService world0 = (None, NewRpcService, world1)"
  unfolding StartRpcServer_def env0_listen_addr
  by (simp add: env0_def world0_def world1_def Let_def)

lemma env0_start_again:
  "StartRpcServer env0 NewRpcService world1 = (Some ''address already in use'', NewRpcService, world1)"
  unfolding StartRpcServer_def env0_listen_addr
  by (simp add: env0_def world1_def Let_def)

text \<open>
  C1, the code at the failing input. On the small cluster \<open>StartRpcServer\<close> succeeds and
  leaves a server serving, but the field \<open>grpcServer\<close> of the service is still nil; so the
  \<open>StopRpcServer\<close> that follows returns at its nil check and changes nothing: no
  \<open>GracefulStop\<close>, the server still serves. Had the field named the server, the same call
  would have stopped it.
\<close>

theorem stop_after_start_is_no_op:
  "StartRpcServer env0 NewRpcService world0 = (None, NewRpcService, world1) \<and>
   serving world1 = [(0, ''10.0.0.1:17946'')] \<and>
   grpcServer NewRpcService = None \<and>
   StopRpcServer (Some NewRpcService) world1 = world1 \<and>
   stopped (StopRpcServer (Some NewRpcService) world1) = [] \<and>
   stopped (StopRpcServer (Some \<lparr>grpcServer = Some 0\<rparr>) world1) = [0] \<and>
   serving (StopRpcServer (Some \<lparr>grpcServer = Some 0\<rparr>) world1) = []"
  using env0_start
  by (simp add: StopRpcServer_def NewRpcService_def GracefulStop_def world1_def)

text \<open>
  C9. When \<open>net.Listen\<close> fails, \<open>StartRpcServer\<close> returns that error and leaves the world
  as it was: no server made or registered, no goroutine started. When it succeeds,
  \<open>StartRpcServer\<close> returns nil, with one server registered and one goroutine serving on
  the new listener, and nothing logged; the goroutine, when \<open>Serve\<close> later returns an
  error, appends one event to the log and does nothing else.
\<close>

theorem StartRpcServer_error_or_nil:
  "(net_Listen a (bound w) (JoinHostPort (BindAddr a) (Itoa (GrpcPort a))) = Some err \<longrightarrow>
      StartRpcServer a s w = (Some err, s, w)) \<and>
   (net_Listen a (bound w) (JoinHostPort (BindAddr a) (Itoa (GrpcPort a))) = None \<longrightarrow>
      (\<exists>w'. StartRpcServer a s w = (None, s, w') \<and>
            bound w' = bound w @ [JoinHostPort (BindAddr a) (Itoa (GrpcPort a))] \<and>
            registered w' = registered w @ [nserver w] \<and>
            serving w' = serving w @ [(nserver w, JoinHostPort (BindAddr a) (Itoa (GrpcPort a)))] \<and>
            server_logged w' = server_logged w)) \<and>
   serve_goroutine w2 (Some e) =
     w2\<lparr>server_logged := server_logged w2 @ [log_Error ''grpc server serve'' [(''error'', e)]]\<rparr> \<and>
   serve_goroutine w2 None = w2"
  by (simp add: StartRpcServer_def serve_goroutine_def Let_def)

lemma env0_listen:
  "net_Listen env0 (bound world0) ''10.0.0.1:17946'' = None"
  "net_Listen env0 (bound world1) ''10.0.0.1:17946'' = Some ''address already in use''"
  by (simp_all add: env0_def world0_def world1_def)

theorem StartRpcServer_error_or_nil_witness:
  "net_Listen env0 (bound world1) (JoinHostPort (BindAddr env0) (Itoa (GrpcPort env0))) =
     Some ''address already in use'' \<and>
   StartRpcServer env0 NewRpcService world1 = (Some ''address already in use'', NewRpcService, world1) \<and>
   net_Listen env0 (bound world0) (JoinHostPort (BindAddr env0) (Itoa (GrpcPort env0))) = None \<and>
   (\<exists>w'. StartRpcServer env0 NewRpcService world0 = (None, NewRpcService, w') \<and>
         serving w' = serving world0 @ [(nserver world0, ''10.0.0.1:17946'')] \<and>
         registered w' = registered world0 @ [nserver world0])"
  using StartRpcServer_error_or_nil [of env0 world1 "''address already in use''" NewRpcService]
        StartRpcServer_error_or_nil [of env0 world0 "''x''" NewRpcService]
  by (simp add: env0_listen_addr env0_listen) blast

section \<open>The connection pool\<close>

lemma getClient_hit: "cs s n = Some c \<Longrightarrow> getClient a s n = (Inr c, s)"
  by (simp add: getClient_def)

lemma getClient_miss:
  "cs s n = None \<Longrightarrow>
   getClient a s n =
     (case getNodeMember a (now s) n of
        None \<Rightarrow> (Inl ''node not found'', tick s)
      | Some m \<Rightarrow>
          if getGrpcAddr a m = [] then (Inl ''node not found'', tick s)
          else (case grpc_DialContext a (Suc (now s)) (getGrpcAddr a m) of
                  Some e \<Rightarrow> (Inl (''dialing failed: '' @ e),
                             s\<lparr>now := Suc (Suc (now s)), dials := dials s @ [getGrpcAddr a m]\<rparr>)
                | None \<Rightarrow> (Inr \<lparr>conn = nconn s\<rparr>,
                           s\<lparr>now := Suc (Suc (now s)), dials := dials s @ [getGrpcAddr a m],
                             nconn := Suc (nconn s), cs := (cs s)(n \<mapsto> \<lparr>conn = nconn s\<rparr>)\<rparr>)))"
  by (simp add: getClient_def getNodeAddr_def tick_def Let_def split: option.splits)

lemma getClient_Inr_cached: "getClient a s n = (Inr c, s1) \<Longrightarrow> cs s1 n = Some c"
  by (cases "cs s n") (auto simp: getClient_hit getClient_miss split: option.splits if_splits)

lemma getClient_Inl_cs: "getClient a s n = (Inl e, s1) \<Longrightarrow> cs s1 = cs s \<and> cs s n = None"
  by (cases "cs s n") (auto simp: getClient_hit getClient_miss tick_def split: option.splits if_splits)

lemma getClient_keeps: "cs s n = Some c \<Longrightarrow> cs (snd (getClient a s k)) n = Some c"
  by (cases "cs s k") (auto simp: getClient_hit getClient_miss tick_def split: option.splits if_splits)

lemma getClient_logged: "logged (snd (getClient a s n)) = logged s"
  by (cases "cs s n") (auto simp: getClient_hit getClient_miss tick_def split: option.splits if_splits)

lemma getClient_calls: "calls (snd (getClient a s n)) = calls s"
  by (cases "cs s n") (auto simp: getClient_hit getClient_miss tick_def split: option.splits if_splits)

lemma pool_ok_getClient: "pool_ok s \<Longrightarrow> pool_ok (snd (getClient a s n))"
  by (cases "cs s n")
     (auto simp: getClient_hit getClient_miss tick_def pool_ok_def ran_def less_Suc_eq
           split: option.splits if_splits)

lemma pool_ok_Remove: "pool_ok s \<Longrightarrow> pool_ok (RemoveGrpcClient s n)"
  by (auto simp: RemoveGrpcClient_def pool_ok_def ran_def split: option.splits if_splits)


lemma relay_pool_part:
  "cs (RelayPublishPacket a s n m) = cs (snd (getClient a s n))"
  "nconn (RelayPublishPacket a s n m) = nconn (snd (getClient a s n))"
  "closed_conns (RelayPublishPacket a s n m) = closed_conns (snd (getClient a s n))"
  "cs (ConnectNotifyToNode a s n cid) = cs (snd (getClient a s n))"
  "nconn (ConnectNotifyToNode a s n cid) = nconn (snd (getClient a s n))"
  "closed_conns (ConnectNotifyToNode a s n cid) = closed_conns (snd (getClient a s n))"
  "cs (RelayRaftApply a s n m) = cs (snd (getClient a s n))"
  "nconn (RelayRaftApply a s n m) = nconn (snd (getClient a s n))"
  "closed_conns (RelayRaftApply a s n m) = closed_conns (snd (getClient a s n))"
  "cs (RelayRaftJoin a s n) = cs (snd (getClient a s n))"
  "nconn (RelayRaftJoin a s n) = nconn (snd (getClient a s n))"
  "closed_conns (RelayRaftJoin a s n) = closed_conns (snd (getClient a s n))"
  by (simp_all add: RelayPublishPacket_def ConnectNotifyToNode_def RelayRaftApply_def
        RelayRaftJoin_def unary_call_def tick_def Let_def
        split: prod.splits sum.splits option.splits)

lemma pool_ok_cong:
  "cs s' = cs s \<Longrightarrow> nconn s' = nconn s \<Longrightarrow> closed_conns s' = closed_conns s \<Longrightarrow>
   pool_ok s' = pool_ok s"
  by (simp add: pool_ok_def)

lemma pool_ok_relay:
  assumes "pool_ok s"
  shows "pool_ok (RelayPublishPacket a s n m)"
    and "pool_ok (ConnectNotifyToNode a s n cid)"
    and "pool_ok (RelayRaftApply a s n m)"
    and "pool_ok (RelayRaftJoin a s n)"
  using pool_ok_getClient [OF assms, of a n]
  by (simp_all add: pool_ok_cong [OF relay_pool_part(1-3)] pool_ok_cong [OF relay_pool_part(4-6)]
        pool_ok_cong [OF relay_pool_part(7-9)] pool_ok_cong [OF relay_pool_part(10-12)])

lemma relay_keeps:
  assumes "cs s n = Some c"
  shows "cs (RelayPublishPacket a s k m) n = Some c"
    and "cs (ConnectNotifyToNode a s k cid) n = Some c"
    and "cs (RelayRaftApply a s k m) n = Some c"
    and "cs (RelayRaftJoin a s k) n = Some c"
  using getClient_keeps [OF assms, of a k] by (simp_all add: relay_pool_part)

lemma pool_ok_tick: "pool_ok (tick s) = pool_ok s"
  by (simp add: pool_ok_def tick_def)

lemma notify_loop_inv:
  "pool_ok s \<Longrightarrow> pool_ok (ConnectNotifyToOthers_loop a msg ms s)"
  "cs s n = Some c \<Longrightarrow> cs (ConnectNotifyToOthers_loop a msg ms s) n = Some c"
  by (induction ms arbitrary: s) (simp_all add: pool_ok_relay relay_keeps)

lemma apply_loop_inv:
  "pool_ok s \<Longrightarrow> pool_ok (RaftApplyToOthers_loop a msg ms s)"
  "cs s n = Some c \<Longrightarrow> cs (RaftApplyToOthers_loop a msg ms s) n = Some c"
  by (induction ms arbitrary: s) (simp_all add: pool_ok_relay relay_keeps)

lemma join_loop_inv:
  "pool_ok s \<Longrightarrow> pool_ok (RaftJoinToOthers_loop a ms s)"
  "cs s n = Some c \<Longrightarrow> cs (RaftJoinToOthers_loop a ms s) n = Some c"
  by (induction ms arbitrary: s) (simp_all add: pool_ok_relay relay_keeps)

lemma pool_ok_run_op: "pool_ok s \<Longrightarrow> pool_ok (run_op a s x)"
  by (cases x)
     (simp_all add: pool_ok_getClient pool_ok_Remove pool_ok_relay ConnectNotifyToOthers_def
        RaftApplyToOthers_def RaftJoinToOthers_def notify_loop_inv apply_loop_inv join_loop_inv
        pool_ok_tick)

lemma pool_ok_run_ops: "pool_ok s \<Longrightarrow> pool_ok (run_ops a s ops)"
  unfolding run_ops_def by (induction ops arbitrary: s) (simp_all add: pool_ok_run_op)

lemma pool_ok_New: "pool_ok NewClientManager"
  by (simp add: pool_ok_def NewClientManager_def)

lemma cs_tick: "cs (tick s) = cs s"
  by (simp add: tick_def)

lemma Remove_other_keeps: "cs s n = Some c \<Longrightarrow> k \<noteq> n \<Longrightarrow> cs (RemoveGrpcClient s k) n = Some c"
  by (simp add: RemoveGrpcClient_def split: option.splits)

lemma run_op_keeps: "cs s n = Some c \<Longrightarrow> x \<noteq> Remove n \<Longrightarrow> cs (run_op a s x) n = Some c"
  by (cases x)
     (auto simp: getClient_keeps Remove_other_keeps relay_keeps ConnectNotifyToOthers_def
        RaftApplyToOthers_def RaftJoinToOthers_def notify_loop_inv apply_loop_inv join_loop_inv
        cs_tick)

lemma run_ops_keeps: "cs s n = Some c \<Longrightarrow> Remove n \<notin> set ops \<Longrightarrow> cs (run_ops a s ops) n = Some c"
  unfolding run_ops_def
proof (induction ops arbitrary: s)
  case Nil
  then show ?case by simp
next
  case (Cons x xs)
  from Cons.prems have "cs (run_op a s x) n = Some c"
    by (auto intro: run_op_keeps)
  with Cons show ?case by simp
qed


lemma Remove_present:
  "cs s n = Some c \<Longrightarrow>
   RemoveGrpcClient s n = s\<lparr>cs := (cs s)(n := None), closed_conns := closed_conns s @ [conn c]\<rparr>"
  by (simp add: RemoveGrpcClient_def)

lemma Remove_absent: "cs s n = None \<Longrightarrow> RemoveGrpcClient s n = s"
  by (simp add: RemoveGrpcClient_def)

lemma pool_ok_conn_less: "pool_ok s \<Longrightarrow> cs s k = Some c \<Longrightarrow> conn c < nconn s"
  by (auto simp: pool_ok_def ran_def)

lemma pool_ok_closed_less: "pool_ok s \<Longrightarrow> i \<in> set (closed_conns s) \<Longrightarrow> i < nconn s"
  by (simp add: pool_ok_def)

lemma get_after_remove:
  assumes ok: "pool_ok s1" and hit: "cs s1 n = Some c"
    and get: "getClient a (RemoveGrpcClient s1 n) n = (Inr c', s2)"
  shows "conn c' = nconn s1" and "conn c' \<noteq> conn c" and "conn c' \<notin> set (closed_conns s2)"
    and "cs s2 n = Some c'" and "length (dials s2) = Suc (length (dials s1))"
    and "\<forall>k d. cs s1 k = Some d \<longrightarrow> conn d \<noteq> conn c'"
proof -
  let ?r = "RemoveGrpcClient s1 n"
  have r: "?r = s1\<lparr>cs := (cs s1)(n := None), closed_conns := closed_conns s1 @ [conn c]\<rparr>"
    using hit by (rule Remove_present)
  have miss: "cs ?r n = None" by (simp add: r)
  have lt: "conn c < nconn s1" using ok hit by (rule pool_ok_conn_less)
  from get have c': "c' = \<lparr>conn = nconn s1\<rparr>"
    and cl: "closed_conns s2 = closed_conns s1 @ [conn c]"
    and d: "length (dials s2) = Suc (length (dials s1))"
    and c2: "cs s2 n = Some c'"
    unfolding getClient_miss [OF miss]
    by (auto simp: r tick_def split: option.splits if_splits)
  show "conn c' = nconn s1" using c' by simp
  show "conn c' \<noteq> conn c" using c' lt by simp
  show "conn c' \<notin> set (closed_conns s2)"
    using c' lt pool_ok_closed_less [OF ok] by (auto simp: cl)
  show "cs s2 n = Some c'" by (rule c2)
  show "length (dials s2) = Suc (length (dials s1))" by (rule d)
  show "\<forall>k d. cs s1 k = Some d \<longrightarrow> conn d \<noteq> conn c'"
    using c' pool_ok_conn_less [OF ok] by fastforce
qed

lemma get_after_remove_succeeds:
  assumes hit: "cs s1 n = Some c"
    and m: "getNodeMember a (now s1) n = Some m" and addr: "getGrpcAddr a m \<noteq> []"
    and dial: "grpc_DialContext a (Suc (now s1)) (getGrpcAddr a m) = None"
  shows "fst (getClient a (RemoveGrpcClient s1 n) n) = Inr \<lparr>conn = nconn s1\<rparr>"
proof -
  let ?r = "RemoveGrpcClient s1 n"
  have r: "?r = s1\<lparr>cs := (cs s1)(n := None), closed_conns := closed_conns s1 @ [conn c]\<rparr>"
    using hit by (rule Remove_present)
  have miss: "cs ?r n = None" by (simp add: r)
  show ?thesis
    unfolding getClient_miss [OF miss] using m addr dial by (simp add: r)
qed

lemma env0_directory:
  "getNodeMember env0 t ''B'' = Some nodeB"
  "getNodeMember env0 t ''C'' = Some nodeC"
  "getNodeMember env0 t ''Z'' = None"
  "getGrpcAddr env0 nodeB = ''10.0.0.2:17946''"
  "getGrpcAddr env0 nodeC = ''10.0.0.3:17946''"
  "grpc_DialContext env0 t addr = None"
  "LocalName env0 = ''A''"
  by (simp_all add: env0_def nodeA_def nodeB_def nodeC_def)

lemma env_churn_directory:
  "getNodeMember env_churn 0 ''B'' = Some nodeB"
  "getNodeMember env_churn 2 ''B'' = None"
  "getGrpcAddr env_churn nodeB = ''10.0.0.2:17946''"
  "grpc_DialContext env_churn t addr = None"
  by (simp_all add: env_churn_def env0_def nodeA_def nodeB_def nodeC_def)

lemma New_fields:
  "cs NewClientManager n = None" "now NewClientManager = 0" "nconn NewClientManager = 0"
  by (simp_all add: NewClientManager_def)

lemma state_B_fields:
  "cs state_B ''B'' = Some \<lparr>conn = 0\<rparr>" "now state_B = 2" "nconn state_B = 1"
  "closed_conns state_B = []"
  by (simp_all add: state_B_def)

lemma env0_get_B: "getClient env0 NewClientManager ''B'' = (Inr \<lparr>conn = 0\<rparr>, state_B)"
  unfolding getClient_miss [OF New_fields(1)]
  by (simp add: New_fields env0_directory) (simp add: NewClientManager_def state_B_def)

lemma env_churn_get_B: "getClient env_churn NewClientManager ''B'' = (Inr \<lparr>conn = 0\<rparr>, state_B)"
  unfolding getClient_miss [OF New_fields(1)]
  by (simp add: New_fields env_churn_directory) (simp add: NewClientManager_def state_B_def)

lemma NodeNotFound_on_miss:
  assumes "cs t n = None"
  shows "fst (getClient a t n) = Inl ''node not found'' \<longleftrightarrow>
         getNodeMember a (now t) n = None \<or>
         (\<exists>m. getNodeMember a (now t) n = Some m \<and> getGrpcAddr a m = [])"
  unfolding getClient_miss [OF assms] by (auto split: option.splits)

lemma redial_on_miss:
  assumes "cs t n = None" "getNodeMember a (now t) n = Some m" "getGrpcAddr a m \<noteq> []"
  shows "length (dials (snd (getClient a t n))) = Suc (length (dials t)) \<and>
         (grpc_DialContext a (Suc (now t)) (getGrpcAddr a m) = None \<longrightarrow>
            fst (getClient a t n) = Inr \<lparr>conn = nconn t\<rparr>)"
  unfolding getClient_miss [OF assms(1)] using assms(2,3) by (auto split: option.splits)

text \<open>
  C4. In a state the pool can reach, once \<open>getClient\<close> has returned a client for a node:
  the next \<open>getClient\<close> returns the same client and changes nothing, and so does a
  \<open>getClient\<close> after any sequence of calls that has no \<open>RemoveGrpcClient\<close> of that node.
  \<open>RemoveGrpcClient\<close> takes the entry out, closes its connection and leaves the other
  entries; a second remove, or a remove of an absent node, changes nothing. A client that
  \<open>getClient\<close> returns after the remove is new: one more dial was made, its connection is
  none of those in the pool before and is not closed, and it is the entry of the node from
  then on; and \<open>getClient\<close> does return it when the directory still resolves the node and
  the dial succeeds.
\<close>

theorem pool_get_same_until_remove:
  assumes "pool_ok s" and "getClient a s n = (Inr c, s1)"
  shows
    "getClient a s1 n = (Inr c, s1) \<and>
     (Remove n \<notin> set ops \<longrightarrow> getClient a (run_ops a s1 ops) n = (Inr c, run_ops a s1 ops)) \<and>
     cs (RemoveGrpcClient s1 n) n = None \<and>
     closed_conns (RemoveGrpcClient s1 n) = closed_conns s1 @ [conn c] \<and>
     (\<forall>k. k \<noteq> n \<longrightarrow> cs (RemoveGrpcClient s1 n) k = cs s1 k) \<and>
     RemoveGrpcClient (RemoveGrpcClient s1 n) n = RemoveGrpcClient s1 n \<and>
     (cs s' n = None \<longrightarrow> RemoveGrpcClient s' n = s') \<and>
     (\<forall>c' s2. getClient a (RemoveGrpcClient s1 n) n = (Inr c', s2) \<longrightarrow>
        conn c' \<noteq> conn c \<and> (\<forall>k d. cs s1 k = Some d \<longrightarrow> conn d \<noteq> conn c') \<and>
        conn c' \<notin> set (closed_conns s2) \<and> cs s2 n = Some c' \<and>
        length (dials s2) = Suc (length (dials s1))) \<and>
     (\<forall>m. getNodeMember a (now s1) n = Some m \<and> getGrpcAddr a m \<noteq> [] \<and>
          grpc_DialContext a (Suc (now s1)) (getGrpcAddr a m) = None \<longrightarrow>
        fst (getClient a (RemoveGrpcClient s1 n) n) = Inr \<lparr>conn = nconn s1\<rparr>)"
proof -
  have hit: "cs s1 n = Some c" using assms(2) by (rule getClient_Inr_cached)
  have ok: "pool_ok s1" using pool_ok_getClient [OF assms(1), of a n] assms(2) by simp
  have rem: "RemoveGrpcClient s1 n = s1\<lparr>cs := (cs s1)(n := None), closed_conns := closed_conns s1 @ [conn c]\<rparr>"
    using hit by (rule Remove_present)
  have 1: "getClient a s1 n = (Inr c, s1)" using hit by (rule getClient_hit)
  have 2: "Remove n \<notin> set ops \<longrightarrow> getClient a (run_ops a s1 ops) n = (Inr c, run_ops a s1 ops)"
    using run_ops_keeps [OF hit] getClient_hit by blast
  have 3: "cs (RemoveGrpcClient s1 n) n = None" by (simp add: rem)
  have 4: "closed_conns (RemoveGrpcClient s1 n) = closed_conns s1 @ [conn c]" by (simp add: rem)
  have 5: "\<forall>k. k \<noteq> n \<longrightarrow> cs (RemoveGrpcClient s1 n) k = cs s1 k" by (simp add: rem)
  have 6: "RemoveGrpcClient (RemoveGrpcClient s1 n) n = RemoveGrpcClient s1 n"
    using 3 by (rule Remove_absent)
  have 7: "cs s' n = None \<longrightarrow> RemoveGrpcClient s' n = s'" by (simp add: Remove_absent)
  have 8: "\<forall>c' s2. getClient a (RemoveGrpcClient s1 n) n = (Inr c', s2) \<longrightarrow>
        conn c' \<noteq> conn c \<and> (\<forall>k d. cs s1 k = Some d \<longrightarrow> conn d \<noteq> conn c') \<and>
        conn c' \<notin> set (closed_conns s2) \<and> cs s2 n = Some c' \<and>
        length (dials s2) = Suc (length (dials s1))"
    using get_after_remove [OF ok hit] by blast
  have 9: "\<forall>m. getNodeMember a (now s1) n = Some m \<and> getGrpcAddr a m \<noteq> [] \<and>
          grpc_DialContext a (Suc (now s1)) (getGrpcAddr a m) = None \<longrightarrow>
        fst (getClient a (RemoveGrpcClient s1 n) n) = Inr \<lparr>conn = nconn s1\<rparr>"
    using get_after_remove_succeeds [OF hit] by blast
  from 1 2 3 4 5 6 7 8 9 show ?thesis by blast
qed

theorem pool_get_same_until_remove_witness:
  "pool_ok NewClientManager \<and>
   getClient env0 NewClientManager ''B'' = (Inr \<lparr>conn = 0\<rparr>, state_B) \<and>
   getClient env0 state_B ''B'' = (Inr \<lparr>conn = 0\<rparr>, state_B) \<and>
   Remove ''B'' \<notin> set [Get ''C'', Publish ''B'' msg0, Remove ''C'', JoinOthers] \<and>
   fst (getClient env0 (run_ops env0 state_B [Get ''C'', Publish ''B'' msg0, Remove ''C'', JoinOthers]) ''B'') =
     Inr \<lparr>conn = 0\<rparr> \<and>
   closed_conns (RemoveGrpcClient state_B ''B'') = [0] \<and>
   cs (RemoveGrpcClient state_B ''B'') ''B'' = None \<and>
   getNodeMember env0 (now state_B) ''B'' = Some nodeB \<and>
   getGrpcAddr env0 nodeB \<noteq> [] \<and>
   grpc_DialContext env0 (Suc (now state_B)) (getGrpcAddr env0 nodeB) = None \<and>
   fst (getClient env0 (RemoveGrpcClient state_B ''B'') ''B'') = Inr \<lparr>conn = 1\<rparr>"
  using pool_get_same_until_remove [OF pool_ok_New env0_get_B,
          of "[Get ''C'', Publish ''B'' msg0, Remove ''C'', JoinOthers]" NewClientManager]
  by (simp add: pool_ok_New env0_get_B env0_directory state_B_fields)

text \<open>
  A node that is cached and has since left the directory: \<open>getClient\<close> returns the cached
  client, not "node not found".
\<close>

theorem cached_get_ignores_directory_counterexample:
  "getClient env_churn NewClientManager ''B'' = (Inr \<lparr>conn = 0\<rparr>, state_B) \<and>
   getNodeMember env_churn (now state_B) ''B'' = None \<and>
   getClient env_churn state_B ''B'' = (Inr \<lparr>conn = 0\<rparr>, state_B) \<and>
   fst (getClient env_churn state_B ''B'') \<noteq> Inl ''node not found''"
  by (simp add: env_churn_get_B state_B_fields env_churn_directory getClient_hit)

text \<open>
  C5, as amended. When the node is not cached, \<open>getClient\<close> fails with "node not found"
  exactly when the directory has no record of the node or its address is empty (a failed
  dial gives another error). Whenever \<open>getClient\<close> fails, the map is as before and has no
  entry for the node, so the next \<open>getClient\<close> resolves again, with the same condition
  for "node not found" at the later time, and dials again when the node resolves.
\<close>

theorem getClient_failure:
  "(cs s n = None \<longrightarrow>
      (fst (getClient a s n) = Inl ''node not found'' \<longleftrightarrow>
         getNodeMember a (now s) n = None \<or>
         (\<exists>m. getNodeMember a (now s) n = Some m \<and> getGrpcAddr a m = []))) \<and>
   (\<forall>e s1. getClient a s n = (Inl e, s1) \<longrightarrow>
      cs s1 = cs s \<and> cs s1 n = None \<and>
      (fst (getClient a s1 n) = Inl ''node not found'' \<longleftrightarrow>
         getNodeMember a (now s1) n = None \<or>
         (\<exists>m. getNodeMember a (now s1) n = Some m \<and> getGrpcAddr a m = [])) \<and>
      (\<forall>m. getNodeMember a (now s1) n = Some m \<and> getGrpcAddr a m \<noteq> [] \<longrightarrow>
         length (dials (snd (getClient a s1 n))) = Suc (length (dials s1)) \<and>
         (grpc_DialContext a (Suc (now s1)) (getGrpcAddr a m) = None \<longrightarrow>
            fst (getClient a s1 n) = Inr \<lparr>conn = nconn s1\<rparr>)))"
proof (intro conjI impI allI)
  assume "cs s n = None"
  then show "fst (getClient a s n) = Inl ''node not found'' \<longleftrightarrow>
         getNodeMember a (now s) n = None \<or>
         (\<exists>m. getNodeMember a (now s) n = Some m \<and> getGrpcAddr a m = [])"
    by (rule NodeNotFound_on_miss)
next
  fix e s1 assume g: "getClient a s n = (Inl e, s1)"
  from getClient_Inl_cs [OF g] show "cs s1 = cs s" by simp
next
  fix e s1 assume g: "getClient a s n = (Inl e, s1)"
  from getClient_Inl_cs [OF g] show "cs s1 n = None" by simp
next
  fix e s1 assume g: "getClient a s n = (Inl e, s1)"
  from getClient_Inl_cs [OF g] have miss: "cs s1 n = None" by simp
  then show "fst (getClient a s1 n) = Inl ''node not found'' \<longleftrightarrow>
         getNodeMember a (now s1) n = None \<or>
         (\<exists>m. getNodeMember a (now s1) n = Some m \<and> getGrpcAddr a m = [])"
    by (rule NodeNotFound_on_miss)
next
  fix e s1 m
  assume g: "getClient a s n = (Inl e, s1)"
    and m: "getNodeMember a (now s1) n = Some m \<and> getGrpcAddr a m \<noteq> []"
  from getClient_Inl_cs [OF g] have miss: "cs s1 n = None" by simp
  from redial_on_miss [OF miss] m
  show "length (dials (snd (getClient a s1 n))) = Suc (length (dials s1))" by blast
next
  fix e s1 m
  assume g: "getClient a s n = (Inl e, s1)"
    and m: "getNodeMember a (now s1) n = Some m \<and> getGrpcAddr a m \<noteq> []"
    and d: "grpc_DialContext a (Suc (now s1)) (getGrpcAddr a m) = None"
  from getClient_Inl_cs [OF g] have miss: "cs s1 n = None" by simp
  from redial_on_miss [OF miss] m d
  show "fst (getClient a s1 n) = Inr \<lparr>conn = nconn s1\<rparr>" by blast
qed

lemma env0_get_Z:
  "getClient env0 NewClientManager ''Z'' = (Inl ''node not found'', tick NewClientManager)"
  unfolding getClient_miss [OF New_fields(1)] by (simp add: New_fields env0_directory)

theorem getClient_failure_witness:
  "cs NewClientManager ''Z'' = None \<and>
   getNodeMember env0 (now NewClientManager) ''Z'' = None \<and>
   getClient env0 NewClientManager ''Z'' = (Inl ''node not found'', tick NewClientManager) \<and>
   fst (getClient env0 NewClientManager ''Z'') = Inl ''node not found'' \<and>
   cs (tick NewClientManager) = cs NewClientManager \<and>
   cs (tick NewClientManager) ''Z'' = None"
  using getClient_failure [of NewClientManager "''Z''" env0] env0_get_Z
  by (simp add: New_fields env0_directory)

section \<open>The relay operations\<close>

lemma getClient_world:
  "getClient a s n = (r, s1) \<Longrightarrow> logged s1 = logged s \<and> calls s1 = calls s"
  using getClient_logged [of a s n] getClient_calls [of a s n] by simp

lemma RelayPublishPacket_no_client:
  "getClient a s n = (Inl e, s1) \<Longrightarrow>
   RelayPublishPacket a s n m =
     s1\<lparr>logged := logged s1 @ [log_Error ''get grpc client'' [(''error'', e)]]\<rparr>"
  by (simp add: RelayPublishPacket_def)

lemma RelayRaftApply_no_client:
  "getClient a s n = (Inl e, s1) \<Longrightarrow>
   RelayRaftApply a s n m =
     s1\<lparr>logged := logged s1 @ [log_Error ''get grpc client'' [(''error'', e)]]\<rparr>"
  by (simp add: RelayRaftApply_def)

lemma RelayRaftJoin_no_client:
  "getClient a s n = (Inl e, s1) \<Longrightarrow>
   RelayRaftJoin a s n =
     s1\<lparr>logged := logged s1 @ [log_Error ''get grpc client'' [(''error'', e)]]\<rparr>"
  by (simp add: RelayRaftJoin_def)

lemma ConnectNotifyToNode_no_client:
  "getClient a s n = (Inl e, s1) \<Longrightarrow> ConnectNotifyToNode a s n cid = s1"
  by (simp add: ConnectNotifyToNode_def)

lemma RelayPublishPacket_client:
  assumes "getClient a s n = (Inr c, s1)"
  shows "calls (RelayPublishPacket a s n m) =
           calls s @ [(conn c, PublishPacketRpc
             \<lparr>PublishRequest.NodeId = NodeID m, PublishRequest.ClientId = ClientID m,
              PublishRequest.ProtocolVersion = ucast (Message.ProtocolVersion m),
              PublishRequest.Payload = Message.Payload m\<rparr>)]"
    and "logged (RelayPublishPacket a s n m) =
           logged s @
           (case invoke a (now s1) (conn c) (PublishPacketRpc
             \<lparr>PublishRequest.NodeId = NodeID m, PublishRequest.ClientId = ClientID m,
              PublishRequest.ProtocolVersion = ucast (Message.ProtocolVersion m),
              PublishRequest.Payload = Message.Payload m\<rparr>) of
              Some e \<Rightarrow> [log_Error ''relay publish packet''
                           [(''error'', e), (''to'', n), (''cid'', ClientID m)]]
            | None \<Rightarrow> [])"
  using getClient_world [OF assms]
  by (simp_all add: RelayPublishPacket_def assms unary_call_def tick_def Let_def split: option.splits)

lemma ConnectNotifyToNode_client:
  assumes "getClient a s n = (Inr c, s1)"
  shows "calls (ConnectNotifyToNode a s n cid) =
           calls s @ [(conn c, ConnectNotifyRpc
             \<lparr>ConnectRequest.NodeId = LocalName a, ConnectRequest.ClientId = cid\<rparr>)]"
    and "logged (ConnectNotifyToNode a s n cid) =
           logged s @ [OnConnectPacketLog DirectionOutbound n cid] @
           (case invoke a (now s1) (conn c) (ConnectNotifyRpc
             \<lparr>ConnectRequest.NodeId = LocalName a, ConnectRequest.ClientId = cid\<rparr>) of
              Some e \<Rightarrow> [log_Error ''connection notification''
                           [(''error'', e), (''to'', n), (''cid'', cid)]]
            | None \<Rightarrow> [])"
  using getClient_world [OF assms]
  by (simp_all add: ConnectNotifyToNode_def assms unary_call_def tick_def Let_def split: option.splits)

lemma RelayRaftApply_client:
  assumes "getClient a s n = (Inr c, s1)"
  shows "calls (RelayRaftApply a s n m) =
           calls s @ [(conn c, RaftApplyRpc
             \<lparr>Action = ucast (Type m), ApplyRequest.NodeId = NodeID m, Filter = Message.Payload m\<rparr>)]"
    and "logged (RelayRaftApply a s n m) =
           logged s @
           (case invoke a (now s1) (conn c) (RaftApplyRpc
             \<lparr>Action = ucast (Type m), ApplyRequest.NodeId = NodeID m, Filter = Message.Payload m\<rparr>) of
              Some e \<Rightarrow> [OnApplyLog n (NodeID m) (Type m) (Message.Payload m) ''to leader do apply'' e]
            | None \<Rightarrow> [])"
  using getClient_world [OF assms]
  by (simp_all add: RelayRaftApply_def assms unary_call_def tick_def Let_def split: option.splits)

lemma RelayRaftJoin_client:
  assumes "getClient a s n = (Inr c, s1)"
  shows "calls (RelayRaftJoin a s n) =
           calls s @ [(conn c, RaftJoinRpc
             \<lparr>JoinRequest.NodeId = LocalName a, Addr = BindAddr a, Port = ucast (RaftPort a)\<rparr>)]"
    and "logged (RelayRaftJoin a s n) =
           logged s @
           (case invoke a (now s1) (conn c) (RaftJoinRpc
             \<lparr>JoinRequest.NodeId = LocalName a, Addr = BindAddr a, Port = ucast (RaftPort a)\<rparr>) of
              Some e \<Rightarrow> [OnJoinLog n (BindAddr a @ '':'' @ Itoa (RaftPort a)) ''raft join'' e]
            | None \<Rightarrow> [])"
  using getClient_world [OF assms]
  by (simp_all add: RelayRaftJoin_def assms unary_call_def tick_def Let_def split: option.splits)

lemma env_down_directory:
  "getNodeMember env_down t ''B'' = Some nodeB"
  "getNodeMember env_down t ''C'' = Some nodeC"
  "getGrpcAddr env_down nodeB = ''10.0.0.2:17946''"
  "getGrpcAddr env_down nodeC = ''10.0.0.3:17946''"
  "grpc_DialContext env_down t addr = None"
  "LocalName env_down = ''A''"
  "Members env_down t = [nodeA, nodeB, nodeC]"
  by (simp_all add: env_down_def env0_def nodeA_def nodeB_def nodeC_def)

lemma env_down_get_B: "getClient env_down NewClientManager ''B'' = (Inr \<lparr>conn = 0\<rparr>, state_B)"
  unfolding getClient_miss [OF New_fields(1)]
  by (simp add: New_fields env_down_directory) (simp add: NewClientManager_def state_B_def)

lemma env_down_invoke: "invoke env_down t c r = Some ''unavailable''"
  by (simp add: env_down_def)

text \<open>
  A relay to a node the directory does not know: \<open>RelayPublishPacket\<close> logs one event that
  carries the error alone, neither the node nor the client id, and \<open>ConnectNotifyToNode\<close>
  logs nothing.
\<close>

theorem relay_failure_log_counterexample:
  "getClient env0 NewClientManager ''Z'' = (Inl ''node not found'', tick NewClientManager) \<and>
   logged (RelayPublishPacket env0 NewClientManager ''Z'' msg0) =
     [log_Error ''get grpc client'' [(''error'', ''node not found'')]] \<and>
   logged (ConnectNotifyToNode env0 NewClientManager ''Z'' ''c1'') = []"
  by (simp add: env0_get_Z RelayPublishPacket_no_client ConnectNotifyToNode_no_client)
     (simp add: tick_def NewClientManager_def)

text \<open>
  C3, as amended. When no client can be had for the node, \<open>RelayPublishPacket\<close>,
  \<open>RelayRaftApply\<close> and \<open>RelayRaftJoin\<close> each log exactly one event, "get grpc client", with
  the error and nothing else. When the call itself fails, \<open>RelayPublishPacket\<close> logs exactly
  one error event with the name of the operation, the error, the node and the client id;
  \<open>ConnectNotifyToNode\<close> logs one such error event, after the \<open>OnConnectPacketLog\<close> that
  goes before every call; \<open>RelayRaftApply\<close> and \<open>RelayRaftJoin\<close> call \<open>OnApplyLog\<close> and
  \<open>OnJoinLog\<close> exactly once, with the node, the name of the operation and the error.
\<close>

theorem relay_failure_log:
  "(\<forall>e s1. getClient a s n = (Inl e, s1) \<longrightarrow>
      logged (RelayPublishPacket a s n m) = logged s @ [log_Error ''get grpc client'' [(''error'', e)]] \<and>
      logged (RelayRaftApply a s n m) = logged s @ [log_Error ''get grpc client'' [(''error'', e)]] \<and>
      logged (RelayRaftJoin a s n) = logged s @ [log_Error ''get grpc client'' [(''error'', e)]]) \<and>
   (\<forall>c s1 r e. getClient a s n = (Inr c, s1) \<and>
        calls (RelayPublishPacket a s n m) = calls s @ [(conn c, r)] \<and>
        invoke a (now s1) (conn c) r = Some e \<longrightarrow>
      logged (RelayPublishPacket a s n m) =
        logged s @ [log_Error ''relay publish packet'' [(''error'', e), (''to'', n), (''cid'', ClientID m)]]) \<and>
   (\<forall>c s1 r e. getClient a s n = (Inr c, s1) \<and>
        calls (ConnectNotifyToNode a s n cid) = calls s @ [(conn c, r)] \<and>
        invoke a (now s1) (conn c) r = Some e \<longrightarrow>
      logged (ConnectNotifyToNode a s n cid) =
        logged s @ [OnConnectPacketLog DirectionOutbound n cid,
                    log_Error ''connection notification'' [(''error'', e), (''to'', n), (''cid'', cid)]]) \<and>
   (\<forall>c s1 r e. getClient a s n = (Inr c, s1) \<and>
        calls (RelayRaftApply a s n m) = calls s @ [(conn c, r)] \<and>
        invoke a (now s1) (conn c) r = Some e \<longrightarrow>
      logged (RelayRaftApply a s n m) =
        logged s @ [OnApplyLog n (NodeID m) (Type m) (Message.Payload m) ''to leader do apply'' e]) \<and>
   (\<forall>c s1 r e. getClient a s n = (Inr c, s1) \<and>
        calls (RelayRaftJoin a s n) = calls s @ [(conn c, r)] \<and>
        invoke a (now s1) (conn c) r = Some e \<longrightarrow>
      logged (RelayRaftJoin a s n) =
        logged s @ [OnJoinLog n (BindAddr a @ '':'' @ Itoa (RaftPort a)) ''raft join'' e])"
proof (intro conjI allI impI)
  fix e s1 assume g: "getClient a s n = (Inl e, s1)"
  from getClient_world [OF g] have l: "logged s1 = logged s" by simp
  show "logged (RelayPublishPacket a s n m) = logged s @ [log_Error ''get grpc client'' [(''error'', e)]]"
    by (simp add: RelayPublishPacket_no_client [OF g] l)
  show "logged (RelayRaftApply a s n m) = logged s @ [log_Error ''get grpc client'' [(''error'', e)]]"
    by (simp add: RelayRaftApply_no_client [OF g] l)
  show "logged (RelayRaftJoin a s n) = logged s @ [log_Error ''get grpc client'' [(''error'', e)]]"
    by (simp add: RelayRaftJoin_no_client [OF g] l)
next
  fix c s1 r e
  assume h: "getClient a s n = (Inr c, s1) \<and>
        calls (RelayPublishPacket a s n m) = calls s @ [(conn c, r)] \<and>
        invoke a (now s1) (conn c) r = Some e"
  then have g: "getClient a s n = (Inr c, s1)" by simp
  from h show "logged (RelayPublishPacket a s n m) =
        logged s @ [log_Error ''relay publish packet'' [(''error'', e), (''to'', n), (''cid'', ClientID m)]]"
    by (simp add: RelayPublishPacket_client [OF g])
next
  fix c s1 r e
  assume h: "getClient a s n = (Inr c, s1) \<and>
        calls (ConnectNotifyToNode a s n cid) = calls s @ [(conn c, r)] \<and>
        invoke a (now s1) (conn c) r = Some e"
  then have g: "getClient a s n = (Inr c, s1)" by simp
  from h show "logged (ConnectNotifyToNode a s n cid) =
        logged s @ [OnConnectPacketLog DirectionOutbound n cid,
                    log_Error ''connection notification'' [(''error'', e), (''to'', n), (''cid'', cid)]]"
    by (simp add: ConnectNotifyToNode_client [OF g])
next
  fix c s1 r e
  assume h: "getClient a s n = (Inr c, s1) \<and>
        calls (RelayRaftApply a s n m) = calls s @ [(conn c, r)] \<and>
        invoke a (now s1) (conn c) r = Some e"
  then have g: "getClient a s n = (Inr c, s1)" by simp
  from h show "logged (RelayRaftApply a s n m) =
        logged s @ [OnApplyLog n (NodeID m) (Type m) (Message.Payload m) ''to leader do apply'' e]"
    by (simp add: RelayRaftApply_client [OF g])
next
  fix c s1 r e
  assume h: "getClient a s n = (Inr c, s1) \<and>
        calls (RelayRaftJoin a s n) = calls s @ [(conn c, r)] \<and>
        invoke a (now s1) (conn c) r = Some e"
  then have g: "getClient a s n = (Inr c, s1)" by simp
  from h show "logged (RelayRaftJoin a s n) =
        logged s @ [OnJoinLog n (BindAddr a @ '':'' @ Itoa (RaftPort a)) ''raft join'' e]"
    by (simp add: RelayRaftJoin_client [OF g])
qed

lemma env_down_config:
  "BindAddr env_down = ''10.0.0.1''" "Itoa (RaftPort env_down) = ''8946''"
  by (simp_all add: env_down_def env0_def Itoa_def digit_char_def)

theorem relay_failure_log_witness:
  "getClient env0 NewClientManager ''Z'' = (Inl ''node not found'', tick NewClientManager) \<and>
   logged (RelayRaftApply env0 NewClientManager ''Z'' msg0) =
     [log_Error ''get grpc client'' [(''error'', ''node not found'')]] \<and>
   logged (RelayRaftJoin env0 NewClientManager ''Z'') =
     [log_Error ''get grpc client'' [(''error'', ''node not found'')]] \<and>
   getClient env_down NewClientManager ''B'' = (Inr \<lparr>conn = 0\<rparr>, state_B) \<and>
   logged (RelayPublishPacket env_down NewClientManager ''B'' msg0) =
     [log_Error ''relay publish packet'' [(''error'', ''unavailable''), (''to'', ''B''), (''cid'', ''c1'')]] \<and>
   logged (ConnectNotifyToNode env_down NewClientManager ''B'' ''c1'') =
     [OnConnectPacketLog DirectionOutbound ''B'' ''c1'',
      log_Error ''connection notification'' [(''error'', ''unavailable''), (''to'', ''B''), (''cid'', ''c1'')]] \<and>
   logged (RelayRaftApply env_down NewClientManager ''B'' msg0) =
     [OnApplyLog ''B'' ''A'' 3 [0xDE, 0xAD, 0xBE, 0xEF] ''to leader do apply'' ''unavailable''] \<and>
   logged (RelayRaftJoin env_down NewClientManager ''B'') =
     [OnJoinLog ''B'' ''10.0.0.1:8946'' ''raft join'' ''unavailable'']"
  using relay_failure_log [where a = env0 and s = NewClientManager and n = "''Z''" and m = msg0]
        relay_failure_log [where a = env_down and s = NewClientManager and n = "''B''" and m = msg0
                             and cid = "''c1''"]
  by (simp add: env0_get_Z env_down_get_B env_down_invoke env_down_config
        RelayPublishPacket_client(1) [OF env_down_get_B]
        ConnectNotifyToNode_client(1) [OF env_down_get_B]
        RelayRaftApply_client(1) [OF env_down_get_B]
        RelayRaftJoin_client(1) [OF env_down_get_B])
     (simp add: NewClientManager_def msg0_def)

text \<open>
  A message with a client id and a protocol version, sent by \<open>RelayRaftApply\<close> and lifted
  back by the \<open>RaftApply\<close> handler: the request has no field for either, and the message
  delivered has the empty client id and protocol version 0.
\<close>

theorem apply_round_trip_counterexample:
  "getClient env0 NewClientManager ''B'' = (Inr \<lparr>conn = 0\<rparr>, state_B) \<and>
   calls (RelayRaftApply env0 NewClientManager ''B'' msg0) =
     [(0, RaftApplyRpc \<lparr>Action = 3, ApplyRequest.NodeId = ''A'', Filter = [0xDE, 0xAD, 0xBE, 0xEF]\<rparr>)] \<and>
   delivered (RaftApply env0 True []
       \<lparr>Action = 3, ApplyRequest.NodeId = ''A'', Filter = [0xDE, 0xAD, 0xBE, 0xEF]\<rparr>) =
     Some \<lparr>Type = 3, NodeID = ''A'', ClientID = [], Message.ProtocolVersion = 0,
           Message.Payload = [0xDE, 0xAD, 0xBE, 0xEF]\<rparr> \<and>
   ClientID msg0 = ''c1'' \<and> Message.ProtocolVersion msg0 = 5 \<and>
   ClientID msg0 \<noteq> [] \<and> Message.ProtocolVersion msg0 \<noteq> 0"
  by (simp add: env0_get_B RelayRaftApply_client(1) [OF env0_get_B] RaftApply_returns delivered_def)
     (simp add: NewClientManager_def msg0_def)

text \<open>
  C7, as amended. For every message, when a client is had for the node: the request that
  \<open>RelayPublishPacket\<close> sends, lifted back by the \<open>PublishPacket\<close> handler of the receiving
  node, gives a message with the same node id, client id, protocol version and payload
  (and the \<open>Type\<close> of a publish); the request that \<open>RelayRaftApply\<close> sends, lifted back by
  the \<open>RaftApply\<close> handler, gives a message with the same \<open>Type\<close> (the action), node id and
  payload, and with the empty client id and protocol version 0. The wire carries the
  request as it is.
\<close>

theorem relay_round_trip:
  "\<forall>c s1. getClient a s n = (Inr c, s1) \<longrightarrow>
     (\<exists>req m'. calls (RelayPublishPacket a s n m) = calls s @ [(conn c, PublishPacketRpc req)] \<and>
        delivered (PublishPacket b True ch req) = Some m' \<and>
        NodeID m' = NodeID m \<and> ClientID m' = ClientID m \<and>
        Message.ProtocolVersion m' = Message.ProtocolVersion m \<and>
        Message.Payload m' = Message.Payload m \<and> Type m' = packets_Publish b) \<and>
     (\<exists>req m'. calls (RelayRaftApply a s n m) = calls s @ [(conn c, RaftApplyRpc req)] \<and>
        delivered (RaftApply b True ch req) = Some m' \<and>
        Type m' = Type m \<and> NodeID m' = NodeID m \<and> Message.Payload m' = Message.Payload m \<and>
        ClientID m' = [] \<and> Message.ProtocolVersion m' = 0)"
proof (intro allI impI conjI)
  fix c s1 assume g: "getClient a s n = (Inr c, s1)"
  show "\<exists>req m'. calls (RelayPublishPacket a s n m) = calls s @ [(conn c, PublishPacketRpc req)] \<and>
        delivered (PublishPacket b True ch req) = Some m' \<and>
        NodeID m' = NodeID m \<and> ClientID m' = ClientID m \<and>
        Message.ProtocolVersion m' = Message.ProtocolVersion m \<and>
        Message.Payload m' = Message.Payload m \<and> Type m' = packets_Publish b"
    by (simp add: RelayPublishPacket_client(1) [OF g] PublishPacket_returns delivered_returns
          widen_narrow_id)
  show "\<exists>req m'. calls (RelayRaftApply a s n m) = calls s @ [(conn c, RaftApplyRpc req)] \<and>
        delivered (RaftApply b True ch req) = Some m' \<and>
        Type m' = Type m \<and> NodeID m' = NodeID m \<and> Message.Payload m' = Message.Payload m \<and>
        ClientID m' = [] \<and> Message.ProtocolVersion m' = 0"
    by (simp add: RelayRaftApply_client(1) [OF g] RaftApply_returns delivered_returns
          widen_narrow_id)
qed

theorem relay_round_trip_witness:
  "getClient env0 NewClientManager ''B'' = (Inr \<lparr>conn = 0\<rparr>, state_B) \<and>
   (\<exists>req m'. calls (RelayPublishPacket env0 NewClientManager ''B'' msg0) =
        calls NewClientManager @ [(0, PublishPacketRpc req)] \<and>
      delivered (PublishPacket env0 True [] req) = Some m' \<and>
      NodeID m' = NodeID msg0 \<and> ClientID m' = ClientID msg0 \<and>
      Message.ProtocolVersion m' = Message.ProtocolVersion msg0 \<and>
      Message.Payload m' = Message.Payload msg0)"
  using relay_round_trip [where a = env0 and s = NewClientManager and n = "''B''" and m = msg0
                            and b = env0 and ch = "[]"]
  by (simp add: env0_get_B) blast

section \<open>The broadcasts\<close>

lemma ConnectNotifyToOthers_loop_fold:
  "ConnectNotifyToOthers_loop a msg ms s =
     foldl (\<lambda>s p. ConnectNotifyToNode a s (Name p) (ClientID msg)) s
       (filter (\<lambda>p. Name p \<noteq> LocalName a) ms)"
  by (induction ms arbitrary: s) simp_all

lemma RaftApplyToOthers_loop_fold:
  "RaftApplyToOthers_loop a msg ms s =
     foldl (\<lambda>s p. RelayRaftApply a s (Name p) msg) s (filter (\<lambda>p. Name p \<noteq> LocalName a) ms)"
  by (induction ms arbitrary: s) simp_all

lemma RaftJoinToOthers_loop_fold:
  "RaftJoinToOthers_loop a ms s =
     foldl (\<lambda>s p. RelayRaftJoin a s (Name p)) s (filter (\<lambda>p. Name p \<noteq> LocalName a) ms)"
  by (induction ms arbitrary: s) simp_all

lemma acquirable_getClient:
  assumes "acquirable a n"
  shows "\<exists>c s1. getClient a s n = (Inr c, s1)"
proof (cases "cs s n")
  case None
  from assms obtain m where "getNodeMember a (now s) n = Some m" "getGrpcAddr a m \<noteq> []"
    "grpc_DialContext a (Suc (now s)) (getGrpcAddr a m) = None"
    unfolding acquirable_def by blast
  then show ?thesis unfolding getClient_miss [OF None] by simp
next
  case (Some c)
  then show ?thesis by (simp add: getClient_hit)
qed

lemma notify_calls_loop:
  assumes "\<forall>p \<in> set ms. Name p \<noteq> LocalName a \<longrightarrow> acquirable a (Name p)"
  shows "calls (ConnectNotifyToOthers_loop a msg ms s) =
           calls s @
           map (\<lambda>p. (conn (the (cs (ConnectNotifyToOthers_loop a msg ms s) (Name p))),
                     ConnectNotifyRpc \<lparr>ConnectRequest.NodeId = LocalName a,
                                       ConnectRequest.ClientId = ClientID msg\<rparr>))
             (filter (\<lambda>p. Name p \<noteq> LocalName a) ms)"
  using assms
proof (induction ms arbitrary: s)
  case Nil
  then show ?case by simp
next
  case (Cons m ms)
  show ?case
  proof (cases "Name m = LocalName a")
    case True
    with Cons show ?thesis by simp
  next
    case False
    let ?s' = "ConnectNotifyToNode a s (Name m) (ClientID msg)"
    let ?f = "ConnectNotifyToOthers_loop a msg ms ?s'"
    from Cons.prems False have "acquirable a (Name m)" by simp
    then obtain c s1 where g: "getClient a s (Name m) = (Inr c, s1)"
      using acquirable_getClient by blast
    have c1: "calls ?s' = calls s @ [(conn c, ConnectNotifyRpc
                \<lparr>ConnectRequest.NodeId = LocalName a, ConnectRequest.ClientId = ClientID msg\<rparr>)]"
      by (rule ConnectNotifyToNode_client(1) [OF g])
    have "cs ?s' (Name m) = Some c"
      using getClient_Inr_cached [OF g] g by (simp add: relay_pool_part)
    then have e: "cs ?f (Name m) = Some c" by (rule notify_loop_inv(2))
    from Cons.prems have "\<forall>p \<in> set ms. Name p \<noteq> LocalName a \<longrightarrow> acquirable a (Name p)" by simp
    from Cons.IH [OF this, of ?s'] show ?thesis using False c1 e by simp
  qed
qed

lemma apply_calls_loop:
  assumes "\<forall>p \<in> set ms. Name p \<noteq> LocalName a \<longrightarrow> acquirable a (Name p)"
  shows "calls (RaftApplyToOthers_loop a msg ms s) =
           calls s @
           map (\<lambda>p. (conn (the (cs (RaftApplyToOthers_loop a msg ms s) (Name p))),
                     RaftApplyRpc \<lparr>Action = ucast (Type msg), ApplyRequest.NodeId = NodeID msg,
                                   Filter = Message.Payload msg\<rparr>))
             (filter (\<lambda>p. Name p \<noteq> LocalName a) ms)"
  using assms
proof (induction ms arbitrary: s)
  case Nil
  then show ?case by simp
next
  case (Cons m ms)
  show ?case
  proof (cases "Name m = LocalName a")
    case True
    with Cons show ?thesis by simp
  next
    case False
    let ?s' = "RelayRaftApply a s (Name m) msg"
    let ?f = "RaftApplyToOthers_loop a msg ms ?s'"
    from Cons.prems False have "acquirable a (Name m)" by simp
    then obtain c s1 where g: "getClient a s (Name m) = (Inr c, s1)"
      using acquirable_getClient by blast
    have c1: "calls ?s' = calls s @ [(conn c, RaftApplyRpc
                \<lparr>Action = ucast (Type msg), ApplyRequest.NodeId = NodeID msg,
                 Filter = Message.Payload msg\<rparr>)]"
      by (rule RelayRaftApply_client(1) [OF g])
    have "cs ?s' (Name m) = Some c"
      using getClient_Inr_cached [OF g] g by (simp add: relay_pool_part)
    then have e: "cs ?f (Name m) = Some c" by (rule apply_loop_inv(2))
    from Cons.prems have "\<forall>p \<in> set ms. Name p \<noteq> LocalName a \<longrightarrow> acquirable a (Name p)" by simp
    from Cons.IH [OF this, of ?s'] show ?thesis using False c1 e by simp
  qed
qed

lemma join_calls_loop:
  assumes "\<forall>p \<in> set ms. Name p \<noteq> LocalName a \<longrightarrow> acquirable a (Name p)"
  shows "calls (RaftJoinToOthers_loop a ms s) =
           calls s @
           map (\<lambda>p. (conn (the (cs (RaftJoinToOthers_loop a ms s) (Name p))),
                     RaftJoinRpc \<lparr>JoinRequest.NodeId = LocalName a, Addr = BindAddr a,
                                  Port = ucast (RaftPort a)\<rparr>))
             (filter (\<lambda>p. Name p \<noteq> LocalName a) ms)"
  using assms
proof (induction ms arbitrary: s)
  case Nil
  then show ?case by simp
next
  case (Cons m ms)
  show ?case
  proof (cases "Name m = LocalName a")
    case True
    with Cons show ?thesis by simp
  next
    case False
    let ?s' = "RelayRaftJoin a s (Name m)"
    let ?f = "RaftJoinToOthers_loop a ms ?s'"
    from Cons.prems False have "acquirable a (Name m)" by simp
    then obtain c s1 where g: "getClient a s (Name m) = (Inr c, s1)"
      using acquirable_getClient by blast
    have c1: "calls ?s' = calls s @ [(conn c, RaftJoinRpc
                \<lparr>JoinRequest.NodeId = LocalName a, Addr = BindAddr a, Port = ucast (RaftPort a)\<rparr>)]"
      by (rule RelayRaftJoin_client(1) [OF g])
    have "cs ?s' (Name m) = Some c"
      using getClient_Inr_cached [OF g] g by (simp add: relay_pool_part)
    then have e: "cs ?f (Name m) = Some c" by (rule join_loop_inv(2))
    from Cons.prems have "\<forall>p \<in> set ms. Name p \<noteq> LocalName a \<longrightarrow> acquirable a (Name p)" by simp
    from Cons.IH [OF this, of ?s'] show ?thesis using False c1 e by simp
  qed
qed

lemma filter_all_self:
  "\<forall>p \<in> set ms. Name p = LocalName a \<Longrightarrow> filter (\<lambda>p. Name p \<noteq> LocalName a) ms = []"
  by (induction ms) simp_all

lemma tick_fields: "calls (tick s) = calls s" "dials (tick s) = dials s" "logged (tick s) = logged s"
  "now (tick s) = Suc (now s)"
  by (simp_all add: tick_def)

text \<open>
  C6. Each broadcast is the per-peer operation run in order over the entries of the one
  membership list read at entry, the entries whose name is the local name left out and all
  others kept; the per-peer operation returns no error, so nothing that happens toward one
  peer stops the loop. When the list is empty or names the local node only, the broadcast
  does nothing but read the membership: no dial, no call, no log. When every other entry
  can be had from the pool, the calls made are exactly one per such entry, in the order
  of the list and on the connection of that entry, whatever the calls return.
\<close>

theorem broadcast_to_others:
  "ConnectNotifyToOthers a s msg =
     foldl (\<lambda>s p. ConnectNotifyToNode a s (Name p) (ClientID msg)) (tick s)
       (filter (\<lambda>p. Name p \<noteq> LocalName a) (Members a (now s))) \<and>
   RaftApplyToOthers a s msg =
     foldl (\<lambda>s p. RelayRaftApply a s (Name p) msg) (tick s)
       (filter (\<lambda>p. Name p \<noteq> LocalName a) (Members a (now s))) \<and>
   RaftJoinToOthers a s =
     foldl (\<lambda>s p. RelayRaftJoin a s (Name p)) (tick s)
       (filter (\<lambda>p. Name p \<noteq> LocalName a) (Members a (now s))) \<and>
   ((\<forall>p \<in> set (Members a (now s)). Name p = LocalName a) \<longrightarrow>
      ConnectNotifyToOthers a s msg = tick s \<and> RaftApplyToOthers a s msg = tick s \<and>
      RaftJoinToOthers a s = tick s \<and>
      calls (tick s) = calls s \<and> dials (tick s) = dials s \<and> logged (tick s) = logged s) \<and>
   ((\<forall>p \<in> set (Members a (now s)). Name p \<noteq> LocalName a \<longrightarrow> acquirable a (Name p)) \<longrightarrow>
      calls (ConnectNotifyToOthers a s msg) =
        calls s @
        map (\<lambda>p. (conn (the (cs (ConnectNotifyToOthers a s msg) (Name p))),
                  ConnectNotifyRpc \<lparr>ConnectRequest.NodeId = LocalName a,
                                    ConnectRequest.ClientId = ClientID msg\<rparr>))
          (filter (\<lambda>p. Name p \<noteq> LocalName a) (Members a (now s))) \<and>
      calls (RaftApplyToOthers a s msg) =
        calls s @
        map (\<lambda>p. (conn (the (cs (RaftApplyToOthers a s msg) (Name p))),
                  RaftApplyRpc \<lparr>Action = ucast (Type msg), ApplyRequest.NodeId = NodeID msg,
                                Filter = Message.Payload msg\<rparr>))
          (filter (\<lambda>p. Name p \<noteq> LocalName a) (Members a (now s))) \<and>
      calls (RaftJoinToOthers a s) =
        calls s @
        map (\<lambda>p. (conn (the (cs (RaftJoinToOthers a s) (Name p))),
                  RaftJoinRpc \<lparr>JoinRequest.NodeId = LocalName a, Addr = BindAddr a,
                               Port = ucast (RaftPort a)\<rparr>))
          (filter (\<lambda>p. Name p \<noteq> LocalName a) (Members a (now s))))"
proof (intro conjI impI)
  show "ConnectNotifyToOthers a s msg =
     foldl (\<lambda>s p. ConnectNotifyToNode a s (Name p) (ClientID msg)) (tick s)
       (filter (\<lambda>p. Name p \<noteq> LocalName a) (Members a (now s)))"
    by (simp add: ConnectNotifyToOthers_def ConnectNotifyToOthers_loop_fold)
  show "RaftApplyToOthers a s msg =
     foldl (\<lambda>s p. RelayRaftApply a s (Name p) msg) (tick s)
       (filter (\<lambda>p. Name p \<noteq> LocalName a) (Members a (now s)))"
    by (simp add: RaftApplyToOthers_def RaftApplyToOthers_loop_fold)
  show "RaftJoinToOthers a s =
     foldl (\<lambda>s p. RelayRaftJoin a s (Name p)) (tick s)
       (filter (\<lambda>p. Name p \<noteq> LocalName a) (Members a (now s)))"
    by (simp add: RaftJoinToOthers_def RaftJoinToOthers_loop_fold)
next
  assume self: "\<forall>p \<in> set (Members a (now s)). Name p = LocalName a"
  show "ConnectNotifyToOthers a s msg = tick s"
    by (simp add: ConnectNotifyToOthers_def ConnectNotifyToOthers_loop_fold filter_all_self [OF self])
  show "RaftApplyToOthers a s msg = tick s"
    by (simp add: RaftApplyToOthers_def RaftApplyToOthers_loop_fold filter_all_self [OF self])
  show "RaftJoinToOthers a s = tick s"
    by (simp add: RaftJoinToOthers_def RaftJoinToOthers_loop_fold filter_all_self [OF self])
  show "calls (tick s) = calls s" "dials (tick s) = dials s" "logged (tick s) = logged s"
    by (simp_all add: tick_fields)
next
  assume acq: "\<forall>p \<in> set (Members a (now s)). Name p \<noteq> LocalName a \<longrightarrow> acquirable a (Name p)"
  show "calls (ConnectNotifyToOthers a s msg) =
        calls s @
        map (\<lambda>p. (conn (the (cs (ConnectNotifyToOthers a s msg) (Name p))),
                  ConnectNotifyRpc \<lparr>ConnectRequest.NodeId = LocalName a,
                                    ConnectRequest.ClientId = ClientID msg\<rparr>))
          (filter (\<lambda>p. Name p \<noteq> LocalName a) (Members a (now s)))"
    using notify_calls_loop [OF acq, of msg "tick s"]
    by (simp add: ConnectNotifyToOthers_def tick_fields)
  show "calls (RaftApplyToOthers a s msg) =
        calls s @
        map (\<lambda>p. (conn (the (cs (RaftApplyToOthers a s msg) (Name p))),
                  RaftApplyRpc \<lparr>Action = ucast (Type msg), ApplyRequest.NodeId = NodeID msg,
                                Filter = Message.Payload msg\<rparr>))
          (filter (\<lambda>p. Name p \<noteq> LocalName a) (Members a (now s)))"
    using apply_calls_loop [OF acq, of msg "tick s"]
    by (simp add: RaftApplyToOthers_def tick_fields)
  show "calls (RaftJoinToOthers a s) =
        calls s @
        map (\<lambda>p. (conn (the (cs (RaftJoinToOthers a s) (Name p))),
                  RaftJoinRpc \<lparr>JoinRequest.NodeId = LocalName a, Addr = BindAddr a,
                               Port = ucast (RaftPort a)\<rparr>))
          (filter (\<lambda>p. Name p \<noteq> LocalName a) (Members a (now s)))"
    using join_calls_loop [OF acq, of "tick s"]
    by (simp add: RaftJoinToOthers_def tick_fields)
qed

lemma env_down_acquirable: "acquirable env_down ''B''" "acquirable env_down ''C''"
  by (simp_all add: acquirable_def env_down_directory)

lemma env_down_others:
  "\<forall>p \<in> set (Members env_down (now NewClientManager)).
      Name p \<noteq> LocalName env_down \<longrightarrow> acquirable env_down (Name p)"
  "filter (\<lambda>p. Name p \<noteq> LocalName env_down) (Members env_down (now NewClientManager)) = [nodeB, nodeC]"
  by (simp_all add: env_down_directory env_down_acquirable nodeA_def nodeB_def nodeC_def)

lemma env_solo_self:
  "\<forall>p \<in> set (Members env_solo (now NewClientManager)). Name p = LocalName env_solo"
  "\<forall>p \<in> set (Members env_empty (now NewClientManager)). Name p = LocalName env_empty"
  by (simp_all add: env_solo_def env_empty_def env0_def nodeA_def)

theorem broadcast_to_others_witness:
  "Members env_solo (now NewClientManager) = [nodeA] \<and> Name nodeA = LocalName env_solo \<and>
   ConnectNotifyToOthers env_solo NewClientManager msg0 = tick NewClientManager \<and>
   Members env_empty (now NewClientManager) = [] \<and>
   RaftJoinToOthers env_empty NewClientManager = tick NewClientManager \<and>
   Members env_down (now NewClientManager) = [nodeA, nodeB, nodeC] \<and>
   LocalName env_down = ''A'' \<and> acquirable env_down ''B'' \<and> acquirable env_down ''C'' \<and>
   map snd (calls (ConnectNotifyToOthers env_down NewClientManager msg0)) =
     [ConnectNotifyRpc \<lparr>ConnectRequest.NodeId = ''A'', ConnectRequest.ClientId = ''c1''\<rparr>,
      ConnectNotifyRpc \<lparr>ConnectRequest.NodeId = ''A'', ConnectRequest.ClientId = ''c1''\<rparr>] \<and>
   length (calls (RaftApplyToOthers env_down NewClientManager msg0)) = 2"
proof -
  note solo = broadcast_to_others [of env_solo NewClientManager msg0]
  note empty = broadcast_to_others [of env_empty NewClientManager msg0]
  note down = broadcast_to_others [of env_down NewClientManager msg0]
  have 1: "ConnectNotifyToOthers env_solo NewClientManager msg0 = tick NewClientManager"
    using solo env_solo_self(1) by blast
  have 2: "RaftJoinToOthers env_empty NewClientManager = tick NewClientManager"
    using empty env_solo_self(2) by blast
  have 3: "calls (ConnectNotifyToOthers env_down NewClientManager msg0) =
        calls NewClientManager @
        map (\<lambda>p. (conn (the (cs (ConnectNotifyToOthers env_down NewClientManager msg0) (Name p))),
                  ConnectNotifyRpc \<lparr>ConnectRequest.NodeId = LocalName env_down,
                                    ConnectRequest.ClientId = ClientID msg0\<rparr>))
          (filter (\<lambda>p. Name p \<noteq> LocalName env_down) (Members env_down (now NewClientManager)))"
    using down env_down_others(1) by blast
  have 4: "calls (RaftApplyToOthers env_down NewClientManager msg0) =
        calls NewClientManager @
        map (\<lambda>p. (conn (the (cs (RaftApplyToOthers env_down NewClientManager msg0) (Name p))),
                  RaftApplyRpc \<lparr>Action = ucast (Type msg0), ApplyRequest.NodeId = NodeID msg0,
                                Filter = Message.Payload msg0\<rparr>))
          (filter (\<lambda>p. Name p \<noteq> LocalName env_down) (Members env_down (now NewClientManager)))"
    using down env_down_others(1) by blast
  have 5: "map snd (calls (ConnectNotifyToOthers env_down NewClientManager msg0)) =
     [ConnectNotifyRpc \<lparr>ConnectRequest.NodeId = ''A'', ConnectRequest.ClientId = ''c1''\<rparr>,
      ConnectNotifyRpc \<lparr>ConnectRequest.NodeId = ''A'', ConnectRequest.ClientId = ''c1''\<rparr>]"
    unfolding 3 env_down_others(2)
    by (simp add: NewClientManager_def env_down_directory msg0_def)
  have 6: "length (calls (RaftApplyToOthers env_down NewClientManager msg0)) = 2"
    unfolding 4 env_down_others(2) by (simp add: NewClientManager_def)
  from 1 2 5 6 env_down_acquirable show ?thesis
    by (simp add: env_down_directory) (simp add: env_solo_def env_empty_def env0_def nodeA_def)
qed

end
